theory Spec2Isabelle
  imports Complex_Main
begin

section \<open>Unsupervised lexical sentiment models: the notebook as HOL functions\<close>

text \<open>
  The program is the notebook
  \<^verbatim>\<open>11 - Sentiment Analysis - Unsupervised Lexical Models.ipynb\<close>. Its code cells are
  translated one by one. The cells call pandas, TextBlob, AFINN, NLTK's VADER,
  BeautifulSoup, unicodedata, contractions and the module
  \<^verbatim>\<open>model_evaluation_utils\<close>; none of these is part of the notebook, so each call is a
  field of the record \<open>library\<close> below and every function of the notebook takes that
  record as its first argument. A library call either returns a value or raises.
\<close>

subsection \<open>Python values\<close>

text \<open>
  A Python \<^verbatim>\<open>str\<close> is a sequence of Unicode code points. String literals of the notebook
  are ASCII and are written with \<open>lit\<close>.
\<close>

type_synonym str = "nat list"

definition lit :: "string \<Rightarrow> str" where
  "lit s = map of_char s"

text \<open>
  A Python \<^verbatim>\<open>float\<close>: a finite value is represented by the real number it denotes, and the
  three special values are kept apart. The decimal literals \<^verbatim>\<open>0.1\<close>, \<^verbatim>\<open>0.4\<close> and \<^verbatim>\<open>1.0\<close>
  are read as the reals they write. (\<^verbatim>\<open>0.1\<close> and \<^verbatim>\<open>0.4\<close> are stored as the nearest
  double, which lies just above the decimal value with no double in between, so on
  doubles the comparison with either gives the same answer.)
\<close>

datatype pyfloat = Fin real | PosInf | NegInf | NaN

text \<open>Python's \<^verbatim>\<open>a >= b\<close> on floats: false as soon as one side is NaN.\<close>

fun float_ge :: "pyfloat \<Rightarrow> pyfloat \<Rightarrow> bool" where
  "float_ge NaN b = False"
| "float_ge a NaN = False"
| "float_ge PosInf b = True"
| "float_ge a NegInf = True"
| "float_ge (Fin x) (Fin y) = (y \<le> x)"
| "float_ge a b = False"

text \<open>Exceptions. What a library raises is opaque to the notebook.\<close>

datatype exn = KeyError str | IndexError | LibraryError str

text \<open>
  A pandas DataFrame of string columns, as \<^verbatim>\<open>read_csv\<close> returns it: column name to the
  column's values in row order. \<^verbatim>\<open>dataset[name]\<close> raises KeyError for a missing column.
\<close>

type_synonym dataframe = "str \<rightharpoonup> str list"

definition getitem :: "(str \<rightharpoonup> 'v) \<Rightarrow> str \<Rightarrow> exn + 'v" where
  "getitem d k = (case d k of None \<Rightarrow> Inl (KeyError k) | Some v \<Rightarrow> Inr v)"

text \<open>What has been printed so far, one entry per \<^verbatim>\<open>print\<close> call.\<close>

type_synonym stdout = "str list"

subsection \<open>The libraries the notebook calls\<close>

record library =
  read_csv :: "str \<Rightarrow> str \<Rightarrow> exn + dataframe"
    \<comment> \<open>\<^verbatim>\<open>pd.read_csv(path, compression=c)\<close>\<close>
  dataframe_info :: "dataframe \<Rightarrow> exn + str"
    \<comment> \<open>the text \<^verbatim>\<open>dataset.info()\<close> prints\<close>
  textblob_polarity :: "str \<Rightarrow> exn + pyfloat"
    \<comment> \<open>\<^verbatim>\<open>textblob.TextBlob(review).sentiment.polarity\<close>\<close>
  afinn_score :: "str \<Rightarrow> exn + pyfloat"
    \<comment> \<open>\<^verbatim>\<open>afn.score(review)\<close> with \<^verbatim>\<open>afn = Afinn(emoticons=True)\<close>\<close>
  soup_get_text :: "str \<Rightarrow> exn + str"
    \<comment> \<open>\<^verbatim>\<open>BeautifulSoup(text, "html.parser")\<close>, the \<^verbatim>\<open>iframe\<close> and \<^verbatim>\<open>script\<close> elements
        extracted, then \<^verbatim>\<open>get_text()\<close>\<close>
  normalize_nfkd :: "str \<Rightarrow> exn + str"
    \<comment> \<open>\<^verbatim>\<open>unicodedata.normalize('NFKD', text)\<close>\<close>
  contractions_fix :: "str \<Rightarrow> exn + str"
    \<comment> \<open>\<^verbatim>\<open>contractions.fix(text)\<close>\<close>
  polarity_scores :: "str \<Rightarrow> exn + (str \<rightharpoonup> pyfloat)"
    \<comment> \<open>\<^verbatim>\<open>SentimentIntensityAnalyzer().polarity_scores(review)\<close>, a dict\<close>
  sentiment_frame :: "str \<Rightarrow> pyfloat \<Rightarrow> pyfloat \<Rightarrow> pyfloat \<Rightarrow> pyfloat \<Rightarrow> exn + str"
    \<comment> \<open>the text printed for the one-row DataFrame built from the predicted sentiment,
        the compound score and the \<^verbatim>\<open>pos\<close>, \<^verbatim>\<open>neg\<close>, \<^verbatim>\<open>neu\<close> scores (rounding and
        formatting included)\<close>
  float_str :: "pyfloat \<Rightarrow> str"
    \<comment> \<open>how \<^verbatim>\<open>print\<close> shows a float\<close>
  display_model_performance_metrics :: "str list \<Rightarrow> str list \<Rightarrow> str list \<Rightarrow> exn + str"
    \<comment> \<open>\<^verbatim>\<open>meu.display_model_performance_metrics(true_labels, predicted_labels, classes)\<close>:
        the report it prints\<close>

subsection \<open>Building blocks: comprehensions, indexing, printing\<close>

text \<open>
  \<^verbatim>\<open>[f(x) for x in xs]\<close> where \<open>f\<close> may raise: elements are evaluated left to right and
  the first exception ends the comprehension.
\<close>

fun comprehension :: "('a \<Rightarrow> exn + 'b) \<Rightarrow> 'a list \<Rightarrow> exn + 'b list" where
  "comprehension f [] = Inr []"
| "comprehension f (x # xs) =
     (case f x of
        Inl e \<Rightarrow> Inl e
      | Inr y \<Rightarrow> (case comprehension f xs of Inl e \<Rightarrow> Inl e | Inr ys \<Rightarrow> Inr (y # ys)))"

text \<open>
  \<^verbatim>\<open>values[ids]\<close> on a numpy array with a list of non-negative indices: IndexError when
  an index is out of bounds.
\<close>

definition take_ids :: "'a list \<Rightarrow> nat list \<Rightarrow> exn + 'a list" where
  "take_ids xs ids =
     comprehension (\<lambda>i. if i < length xs then Inr (xs ! i) else Inl IndexError) ids"

text \<open>\<^verbatim>\<open>print(a, b)\<close>: the two arguments separated by a space.\<close>

definition print2 :: "str \<Rightarrow> str \<Rightarrow> stdout \<Rightarrow> stdout" where
  "print2 a b out = out @ [a @ lit '' '' @ b]"

definition print1 :: "str \<Rightarrow> stdout \<Rightarrow> stdout" where
  "print1 a out = out @ [a]"

subsection \<open>Load dataset, extract data for model evaluation\<close>

text \<open>
  \<^verbatim>\<open>dataset = pd.read_csv('movie_reviews.csv.bz2', compression='bz2')
  dataset.info()\<close>
\<close>

definition load_dataset :: "library \<Rightarrow> stdout \<Rightarrow> (exn + dataframe) \<times> stdout" where
  "load_dataset L out =
     (case read_csv L (lit ''movie_reviews.csv.bz2'') (lit ''bz2'') of
        Inl e \<Rightarrow> (Inl e, out)
      | Inr dataset \<Rightarrow>
          (case dataframe_info L dataset of
             Inl e \<Rightarrow> (Inl e, out)
           | Inr info \<Rightarrow> (Inr dataset, print1 info out)))"

text \<open>
  \<^verbatim>\<open>test_reviews = dataset['review'].values[35000:]
  test_sentiments = dataset['sentiment'].values[35000:]
  sample_review_ids = [7626, 3533, 13010]\<close>
  A slice \<^verbatim>\<open>[35000:]\<close> of a shorter array is empty.
\<close>

definition test_reviews :: "dataframe \<Rightarrow> exn + str list" where
  "test_reviews dataset =
     (case getitem dataset (lit ''review'') of
        Inl e \<Rightarrow> Inl e
      | Inr values \<Rightarrow> Inr (drop 35000 values))"

definition test_sentiments :: "dataframe \<Rightarrow> exn + str list" where
  "test_sentiments dataset =
     (case getitem dataset (lit ''sentiment'') of
        Inl e \<Rightarrow> Inl e
      | Inr values \<Rightarrow> Inr (drop 35000 values))"

definition sample_review_ids :: "nat list" where
  "sample_review_ids = [7626, 3533, 13010]"

subsection \<open>Sentiment analysis with TextBlob\<close>

text \<open>
  \<^verbatim>\<open>sentiment_polarity = [textblob.TextBlob(review).sentiment.polarity
                          for review in test_reviews]\<close>
\<close>

definition textblob_sentiment_polarity :: "library \<Rightarrow> str list \<Rightarrow> exn + pyfloat list" where
  "textblob_sentiment_polarity L reviews = comprehension (textblob_polarity L) reviews"

text \<open>
  \<^verbatim>\<open>predicted_sentiments = ['positive' if score >= 0.1 else 'negative'
                            for score in sentiment_polarity]\<close>
\<close>

definition textblob_predicted_sentiments :: "pyfloat list \<Rightarrow> str list" where
  "textblob_predicted_sentiments sentiment_polarity =
     map (\<lambda>score. if float_ge score (Fin 0.1) then lit ''positive'' else lit ''negative'')
       sentiment_polarity"

subsection \<open>Sentiment analysis with AFINN\<close>

text \<open>
  \<^verbatim>\<open>sentiment_polarity = [afn.score(review) for review in test_reviews]
  predicted_sentiments = ['positive' if score >= 1.0 else 'negative'
                            for score in sentiment_polarity]\<close>
\<close>

definition afinn_sentiment_polarity :: "library \<Rightarrow> str list \<Rightarrow> exn + pyfloat list" where
  "afinn_sentiment_polarity L reviews = comprehension (afinn_score L) reviews"

definition afinn_predicted_sentiments :: "pyfloat list \<Rightarrow> str list" where
  "afinn_predicted_sentiments sentiment_polarity =
     map (\<lambda>score. if float_ge score (Fin 1.0) then lit ''positive'' else lit ''negative'')
       sentiment_polarity"

subsection \<open>Sentiment analysis with VADER: the utility functions\<close>

text \<open>
  \<^verbatim>\<open>re.sub(r'[\r|\n|\r\n]+', '\n', stripped_text)\<close>: the character class holds carriage
  return (13), the bar (124) and line feed (10); every maximal run of such characters
  becomes one line feed. The flag of \<open>re_sub_breaks\<close> says that the previous character
  belonged to a run.
\<close>

definition is_break :: "nat \<Rightarrow> bool" where
  "is_break c = (c = 13 \<or> c = 124 \<or> c = 10)"

fun re_sub_breaks :: "bool \<Rightarrow> str \<Rightarrow> str" where
  "re_sub_breaks in_run [] = []"
| "re_sub_breaks in_run (c # cs) =
     (if is_break c
      then (if in_run then re_sub_breaks True cs else 10 # re_sub_breaks True cs)
      else c # re_sub_breaks False cs)"

text \<open>
  \<^verbatim>\<open>def strip_html_tags(text):
      soup = BeautifulSoup(text, "html.parser")
      [s.extract() for s in soup(['iframe', 'script'])]
      stripped_text = soup.get_text()
      stripped_text = re.sub(r'[\r|\n|\r\n]+', '\n', stripped_text)
      return stripped_text\<close>
\<close>

definition strip_html_tags :: "library \<Rightarrow> str \<Rightarrow> exn + str" where
  "strip_html_tags L text =
     (case soup_get_text L text of
        Inl e \<Rightarrow> Inl e
      | Inr stripped_text \<Rightarrow> Inr (re_sub_breaks False stripped_text))"

text \<open>
  \<^verbatim>\<open>def remove_accented_chars(text):
      text = unicodedata.normalize('NFKD', text).encode('ascii', 'ignore')
                                                  .decode('utf-8', 'ignore')
      return text\<close>
  Encoding to ASCII with \<^verbatim>\<open>'ignore'\<close> drops every code point from 128 on; decoding the
  remaining bytes as UTF-8 gives the same characters back.
\<close>

definition remove_accented_chars :: "library \<Rightarrow> str \<Rightarrow> exn + str" where
  "remove_accented_chars L text =
     (case normalize_nfkd L text of
        Inl e \<Rightarrow> Inl e
      | Inr normalized \<Rightarrow> Inr (filter (\<lambda>c. c < 128) normalized))"

text \<open>
  \<^verbatim>\<open>def expand_contractions(text):
      return contractions.fix(text)\<close>
\<close>

definition expand_contractions :: "library \<Rightarrow> str \<Rightarrow> exn + str" where
  "expand_contractions L text = contractions_fix L text"

subsection \<open>Sentiment analysis with VADER: the wrapper\<close>

text \<open>
  \<^verbatim>\<open>def analyze_sentiment_vader_lexicon(review, threshold=0.1, verbose=False):
      review = strip_html_tags(review)
      review = remove_accented_chars(review)
      review = expand_contractions(review)
      analyzer = SentimentIntensityAnalyzer()
      scores = analyzer.polarity_scores(review)
      agg_score = scores['compound']
      final_sentiment = 'positive' if agg_score >= threshold else 'negative'
      if verbose:
          positive = str(round(scores['pos'], 2)*100)+'%'
          final = round(agg_score, 2)
          negative = str(round(scores['neg'], 2)*100)+'%'
          neutral = str(round(scores['neu'], 2)*100)+'%'
          sentiment_frame = pd.DataFrame(...)
          print(sentiment_frame)
      return final_sentiment\<close>
  The function reads and writes no global variable; its only effect besides its result
  is the printed frame.
\<close>

definition analyze_sentiment_vader_lexicon ::
  "library \<Rightarrow> str \<Rightarrow> pyfloat \<Rightarrow> bool \<Rightarrow> stdout \<Rightarrow> (exn + str) \<times> stdout" where
  "analyze_sentiment_vader_lexicon L review threshold verbose out =
     (case strip_html_tags L review of
        Inl e \<Rightarrow> (Inl e, out)
      | Inr review1 \<Rightarrow>
     (case remove_accented_chars L review1 of
        Inl e \<Rightarrow> (Inl e, out)
      | Inr review2 \<Rightarrow>
     (case expand_contractions L review2 of
        Inl e \<Rightarrow> (Inl e, out)
      | Inr review3 \<Rightarrow>
     (case polarity_scores L review3 of
        Inl e \<Rightarrow> (Inl e, out)
      | Inr scores \<Rightarrow>
     (case getitem scores (lit ''compound'') of
        Inl e \<Rightarrow> (Inl e, out)
      | Inr agg_score \<Rightarrow>
          (let final_sentiment =
                 (if float_ge agg_score threshold then lit ''positive'' else lit ''negative'')
           in if verbose
              then
                (case getitem scores (lit ''pos'') of
                   Inl e \<Rightarrow> (Inl e, out)
                 | Inr positive \<Rightarrow>
                (case getitem scores (lit ''neg'') of
                   Inl e \<Rightarrow> (Inl e, out)
                 | Inr negative \<Rightarrow>
                (case getitem scores (lit ''neu'') of
                   Inl e \<Rightarrow> (Inl e, out)
                 | Inr neutral \<Rightarrow>
                (case sentiment_frame L final_sentiment agg_score positive negative neutral of
                   Inl e \<Rightarrow> (Inl e, out)
                 | Inr frame \<Rightarrow> (Inr final_sentiment, print1 frame out)))))
              else (Inr final_sentiment, out)))))))"

text \<open>The default arguments of the \<^verbatim>\<open>def\<close> line: \<^verbatim>\<open>threshold=0.1, verbose=False\<close>.\<close>

definition default_threshold :: pyfloat where
  "default_threshold = Fin 0.1"

definition default_verbose :: bool where
  "default_verbose = False"

definition analyze_sentiment_vader_lexicon_default ::
  "library \<Rightarrow> str \<Rightarrow> stdout \<Rightarrow> (exn + str) \<times> stdout" where
  "analyze_sentiment_vader_lexicon_default L review out =
     analyze_sentiment_vader_lexicon L review default_threshold default_verbose out"

text \<open>
  \<^verbatim>\<open>predicted_sentiments = [analyze_sentiment_vader_lexicon(review, threshold=0.4,
                              verbose=False) for review in test_reviews]\<close>
\<close>

fun vader_predicted_sentiments ::
  "library \<Rightarrow> str list \<Rightarrow> stdout \<Rightarrow> (exn + str list) \<times> stdout" where
  "vader_predicted_sentiments L [] out = (Inr [], out)"
| "vader_predicted_sentiments L (review # reviews) out =
     (case analyze_sentiment_vader_lexicon L review (Fin 0.4) False out of
        (Inl e, out1) \<Rightarrow> (Inl e, out1)
      | (Inr pred, out1) \<Rightarrow>
          (case vader_predicted_sentiments L reviews out1 of
             (Inl e, out2) \<Rightarrow> (Inl e, out2)
           | (Inr preds, out2) \<Rightarrow> (Inr (pred # preds), out2)))"

subsection \<open>The cells that print\<close>

text \<open>
  Sequencing of statements that may raise and may print: the first exception ends the
  run, and what was printed before it stays printed.
\<close>

definition bind_io ::
  "(stdout \<Rightarrow> (exn + 'a) \<times> stdout) \<Rightarrow> ('a \<Rightarrow> stdout \<Rightarrow> (exn + 'b) \<times> stdout) \<Rightarrow>
   stdout \<Rightarrow> (exn + 'b) \<times> stdout" where
  "bind_io m f out =
     (case m out of (Inl e, out1) \<Rightarrow> (Inl e, out1) | (Inr v, out1) \<Rightarrow> f v out1)"

text \<open>A statement that prints nothing.\<close>

definition quiet :: "exn + 'a \<Rightarrow> stdout \<Rightarrow> (exn + 'a) \<times> stdout" where
  "quiet r out = (r, out)"

text \<open>
  \<^verbatim>\<open>zip(test_reviews[sample_review_ids], test_sentiments[sample_review_ids])\<close>, the
  iterable of the three sample loops.
\<close>

definition sample_pairs :: "str list \<Rightarrow> str list \<Rightarrow> exn + (str \<times> str) list" where
  "sample_pairs reviews sentiments =
     (case take_ids reviews sample_review_ids of
        Inl e \<Rightarrow> Inl e
      | Inr rs \<Rightarrow>
          (case take_ids sentiments sample_review_ids of
             Inl e \<Rightarrow> Inl e
           | Inr ss \<Rightarrow> Inr (zip rs ss)))"

text \<open>
  \<^verbatim>\<open>for review, sentiment in zip(...):
      print('REVIEW:', review)
      print('Actual Sentiment:', sentiment)
      print('Predicted Sentiment polarity:', scorer(review))
      print('-'*60)\<close>
  with \<^verbatim>\<open>textblob.TextBlob(review).sentiment.polarity\<close> as the scorer in the TextBlob
  section and \<^verbatim>\<open>afn.score(review)\<close> in the AFINN section.
\<close>

fun print_samples ::
  "(str \<Rightarrow> exn + pyfloat) \<Rightarrow> (pyfloat \<Rightarrow> str) \<Rightarrow> (str \<times> str) list \<Rightarrow> stdout \<Rightarrow>
   (exn + unit) \<times> stdout" where
  "print_samples scorer fstr [] out = (Inr (), out)"
| "print_samples scorer fstr ((review, sentiment) # rest) out =
     (let out1 = print2 (lit ''REVIEW:'') review out;
          out2 = print2 (lit ''Actual Sentiment:'') sentiment out1
      in case scorer review of
           Inl e \<Rightarrow> (Inl e, out2)
         | Inr score \<Rightarrow>
             print_samples scorer fstr rest
               (print1 (replicate 60 45)
                  (print2 (lit ''Predicted Sentiment polarity:'') (fstr score) out2)))"

text \<open>
  \<^verbatim>\<open>for review, sentiment in zip(...):
      print('REVIEW:', review)
      print('Actual Sentiment:', sentiment)
      pred = analyze_sentiment_vader_lexicon(review, threshold=0.4, verbose=True)
      print('-'*60)\<close>
\<close>

fun vader_samples ::
  "library \<Rightarrow> (str \<times> str) list \<Rightarrow> stdout \<Rightarrow> (exn + unit) \<times> stdout" where
  "vader_samples L [] out = (Inr (), out)"
| "vader_samples L ((review, sentiment) # rest) out =
     (let out1 = print2 (lit ''REVIEW:'') review out;
          out2 = print2 (lit ''Actual Sentiment:'') sentiment out1
      in case analyze_sentiment_vader_lexicon L review (Fin 0.4) True out2 of
           (Inl e, out3) \<Rightarrow> (Inl e, out3)
         | (Inr pred, out3) \<Rightarrow> vader_samples L rest (print1 (replicate 60 45) out3))"

text \<open>
  \<^verbatim>\<open>meu.display_model_performance_metrics(true_labels=test_sentiments,
        predicted_labels=predicted_sentiments, classes=['positive', 'negative'])\<close>
\<close>

definition display_metrics ::
  "library \<Rightarrow> str list \<Rightarrow> str list \<Rightarrow> stdout \<Rightarrow> (exn + unit) \<times> stdout" where
  "display_metrics L true_labels predicted_labels out =
     (case display_model_performance_metrics L true_labels predicted_labels
             [lit ''positive'', lit ''negative''] of
        Inl e \<Rightarrow> (Inl e, out)
      | Inr report \<Rightarrow> (Inr (), print1 report out))"

subsection \<open>The notebook, run from top to bottom\<close>

text \<open>
  The values the three evaluations work on and produce. The notebook reuses the name
  \<^verbatim>\<open>predicted_sentiments\<close> for each library in turn; the record keeps the three lists apart.
\<close>

record evaluation =
  reviews_scored :: "str list"
  true_sentiments :: "str list"
  textblob_predicted :: "str list"
  afinn_predicted :: "str list"
  vader_predicted :: "str list"

definition notebook :: "library \<Rightarrow> stdout \<Rightarrow> (exn + evaluation) \<times> stdout" where
  "notebook L =
     bind_io (load_dataset L) (\<lambda>dataset.
     bind_io (quiet (test_reviews dataset)) (\<lambda>reviews.
     bind_io (quiet (test_sentiments dataset)) (\<lambda>sentiments.
     bind_io (quiet (sample_pairs reviews sentiments)) (\<lambda>pairs1.
     bind_io (print_samples (textblob_polarity L) (float_str L) pairs1) (\<lambda>_.
     bind_io (quiet (textblob_sentiment_polarity L reviews)) (\<lambda>polarity1.
     bind_io (display_metrics L sentiments (textblob_predicted_sentiments polarity1)) (\<lambda>_.
     bind_io (quiet (sample_pairs reviews sentiments)) (\<lambda>pairs2.
     bind_io (print_samples (afinn_score L) (float_str L) pairs2) (\<lambda>_.
     bind_io (quiet (afinn_sentiment_polarity L reviews)) (\<lambda>polarity2.
     bind_io (display_metrics L sentiments (afinn_predicted_sentiments polarity2)) (\<lambda>_.
     bind_io (quiet (sample_pairs reviews sentiments)) (\<lambda>pairs3.
     bind_io (vader_samples L pairs3) (\<lambda>_.
     bind_io (vader_predicted_sentiments L reviews) (\<lambda>predicted3.
     bind_io (display_metrics L sentiments predicted3) (\<lambda>_.
     quiet (Inr \<lparr> reviews_scored = reviews,
                  true_sentiments = sentiments,
                  textblob_predicted = textblob_predicted_sentiments polarity1,
                  afinn_predicted = afinn_predicted_sentiments polarity2,
                  vader_predicted = predicted3 \<rparr>))))))))))))))))"

subsection \<open>A small library instance\<close>

text \<open>
  A library with a three-word lexicon and a parser that knows one tag, small enough to
  evaluate the functions above on concrete reviews. Its dataset has 50000 rows, as the
  notebook's has.
\<close>

definition demo_score :: "str \<Rightarrow> real" where
  "demo_score t =
     (if t = lit ''good'' then 0.7
      else if t = lit ''fine'' then 0.25
      else if t = lit ''bad'' then - 0.7
      else 0)"

definition demo_dataset :: dataframe where
  "demo_dataset =
     [lit ''review'' \<mapsto> replicate 35000 (lit ''bad'') @ replicate 15000 (lit ''<b>good</b>''),
      lit ''sentiment'' \<mapsto>
        replicate 35000 (lit ''negative'') @ replicate 15000 (lit ''positive'')]"

definition demo_polarity_scores :: "str \<Rightarrow> (str \<rightharpoonup> pyfloat)" where
  "demo_polarity_scores t =
     [lit ''neg'' \<mapsto> Fin 0, lit ''neu'' \<mapsto> Fin 0.5, lit ''pos'' \<mapsto> Fin 0.5,
      lit ''compound'' \<mapsto> Fin (demo_score t)]"

definition demo_library :: library where
  "demo_library =
     \<lparr> read_csv = (\<lambda>path compression. Inr demo_dataset),
       dataframe_info = (\<lambda>d. Inr (lit ''2 columns'')),
       textblob_polarity = (\<lambda>t. Inr (Fin (demo_score t))),
       afinn_score = (\<lambda>t. Inr (Fin (10 * demo_score t))),
       soup_get_text = (\<lambda>t. Inr (if t = lit ''<b>good</b>'' then lit ''good'' else t)),
       normalize_nfkd = (\<lambda>t. Inr t),
       contractions_fix = (\<lambda>t. Inr t),
       polarity_scores = (\<lambda>t. Inr (demo_polarity_scores t)),
       sentiment_frame = (\<lambda>final_sentiment final positive negative neutral. Inr final_sentiment),
       float_str = (\<lambda>x. lit ''float''),
       display_model_performance_metrics =
         (\<lambda>true_labels predicted_labels classes. Inr (lit ''report'')) \<rparr>"

text \<open>The same library with every call that can raise raising.\<close>

definition failure :: exn where
  "failure = LibraryError (lit ''failure'')"


text \<open>A library whose scorers and parser raise on the one review that has markup.\<close>

definition picky_library :: library where
  "picky_library =
     demo_library
       \<lparr> textblob_polarity :=
           (\<lambda>t. if t = lit ''<b>good</b>'' then Inl failure else Inr (Fin (demo_score t))),
         afinn_score :=
           (\<lambda>t. if t = lit ''<b>good</b>'' then Inl failure else Inr (Fin (10 * demo_score t))),
         soup_get_text := (\<lambda>t. if t = lit ''<b>good</b>'' then Inl failure else Inr t) \<rparr>"

section \<open>Properties\<close>

subsection \<open>Comprehensions\<close>

lemma comprehension_length:
  "comprehension f xs = Inr ys \<Longrightarrow> length ys = length xs"
  by (induction xs arbitrary: ys) (auto split: sum.splits)

lemma comprehension_nth:
  "comprehension f xs = Inr ys \<Longrightarrow> i < length xs \<Longrightarrow> f (xs ! i) = Inr (ys ! i)"
proof (induction xs arbitrary: ys i)
  case Nil
  then show ?case by simp
next
  case (Cons x xs)
  then show ?case
    by (cases i) (auto split: sum.splits)
qed

lemma comprehension_total:
  "(\<And>x. x \<in> set xs \<Longrightarrow> \<exists>y. f x = Inr y) \<Longrightarrow> \<exists>ys. comprehension f xs = Inr ys"
proof (induction xs)
  case Nil
  then show ?case by simp
next
  case (Cons x xs)
  then obtain y where y: "f x = Inr y" by auto
  from Cons obtain ys where "comprehension f xs = Inr ys" by auto
  with y show ?case by simp
qed

lemma comprehension_raises:
  "x \<in> set xs \<Longrightarrow> f x = Inl e \<Longrightarrow> \<exists>e'. comprehension f xs = Inl e'"
  by (induction xs) (auto split: sum.splits)

lemma comprehension_cong:
  "(\<And>x. x \<in> set xs \<Longrightarrow> f x = g x) \<Longrightarrow> comprehension f xs = comprehension g xs"
  by (induction xs) (auto split: sum.splits)

lemma comprehension_replicate:
  "f x = Inr y \<Longrightarrow> comprehension f (replicate n x) = Inr (replicate n y)"
  by (induction n) auto


lemma comprehension_all_return:
  "comprehension f xs = Inr ys \<Longrightarrow> x \<in> set xs \<Longrightarrow> \<exists>y. f x = Inr y"
  by (metis comprehension_nth in_set_conv_nth)

subsection \<open>The printed output does not feed back into the VADER wrapper\<close>

lemma analyze_quiet:
  "analyze_sentiment_vader_lexicon L r th False out =
     (fst (analyze_sentiment_vader_lexicon L r th False []), out)"
  by (simp add: analyze_sentiment_vader_lexicon_def Let_def split: sum.splits)

lemma analyze_fst_indep:
  "fst (analyze_sentiment_vader_lexicon L r th v out1) =
   fst (analyze_sentiment_vader_lexicon L r th v out2)"
  by (simp add: analyze_sentiment_vader_lexicon_def Let_def split: sum.splits)

lemma vader_predicted_comprehension:
  "vader_predicted_sentiments L rs out =
     (comprehension (\<lambda>r. fst (analyze_sentiment_vader_lexicon L r (Fin 0.4) False [])) rs,
      out)"
proof (induction rs arbitrary: out)
  case Nil
  then show ?case by simp
next
  case (Cons r rs)
  show ?case
    by (subst vader_predicted_sentiments.simps, subst analyze_quiet)
       (simp add: Cons split: sum.splits)
qed

subsection \<open>What the VADER wrapper returns\<close>

lemma labels_distinct: "lit ''positive'' \<noteq> lit ''negative''"
  by (simp add: lit_def)

lemma analyze_label:
  assumes "strip_html_tags L r = Inr r1" "remove_accented_chars L r1 = Inr r2"
    "expand_contractions L r2 = Inr r3" "polarity_scores L r3 = Inr sc"
    "sc (lit ''compound'') = Some c"
  shows "analyze_sentiment_vader_lexicon L r th False out =
     (Inr (if float_ge c th then lit ''positive'' else lit ''negative''), out)"
  using assms by (simp add: analyze_sentiment_vader_lexicon_def getitem_def)

lemma analyze_Inr_label:
  "analyze_sentiment_vader_lexicon L r th v out = (Inr lab, out') \<Longrightarrow>
   lab = lit ''positive'' \<or> lab = lit ''negative''"
  by (auto simp add: analyze_sentiment_vader_lexicon_def Let_def split: sum.splits if_splits)

lemma analyze_Inr_chain:
  "fst (analyze_sentiment_vader_lexicon L r th v out) = Inr lab \<Longrightarrow>
   \<exists>r1 r2 r3 sc c. strip_html_tags L r = Inr r1 \<and> remove_accented_chars L r1 = Inr r2 \<and>
     expand_contractions L r2 = Inr r3 \<and> polarity_scores L r3 = Inr sc \<and>
     sc (lit ''compound'') = Some c \<and>
     lab = (if float_ge c th then lit ''positive'' else lit ''negative'')"
  by (auto simp add: analyze_sentiment_vader_lexicon_def Let_def getitem_def
      split: sum.splits if_splits option.splits)

lemma strip_ignores_scorer:
  "strip_html_tags (L\<lparr>polarity_scores := f\<rparr>) t = strip_html_tags L t"
  by (simp add: strip_html_tags_def)

lemma remove_ignores_scorer:
  "remove_accented_chars (L\<lparr>polarity_scores := f\<rparr>) t = remove_accented_chars L t"
  by (simp add: remove_accented_chars_def)

lemma expand_ignores_scorer:
  "expand_contractions (L\<lparr>polarity_scores := f\<rparr>) t = expand_contractions L t"
  by (simp add: expand_contractions_def)

lemma analyze_scorer_at_preprocessed:
  "strip_html_tags L r = Inr r1 \<Longrightarrow> remove_accented_chars L r1 = Inr r2 \<Longrightarrow>
   expand_contractions L r2 = Inr r3 \<Longrightarrow> f r3 = polarity_scores L r3 \<Longrightarrow>
     analyze_sentiment_vader_lexicon (L\<lparr>polarity_scores := f\<rparr>) r th v out =
     analyze_sentiment_vader_lexicon L r th v out"
  by (simp add: analyze_sentiment_vader_lexicon_def strip_ignores_scorer remove_ignores_scorer
      expand_ignores_scorer Let_def cong: sum.case_cong if_cong)

lemma vader_predicted_total:
  assumes "\<And>x. x \<in> set rs \<Longrightarrow> \<exists>x1 x2 x3 sc c.
      strip_html_tags L x = Inr x1 \<and> remove_accented_chars L x1 = Inr x2 \<and>
      expand_contractions L x2 = Inr x3 \<and> polarity_scores L x3 = Inr sc \<and>
      sc (lit ''compound'') = Some c"
  shows "\<exists>ps. vader_predicted_sentiments L rs out = (Inr ps, out)"
proof -
  have "\<exists>ps. comprehension
      (\<lambda>r. fst (analyze_sentiment_vader_lexicon L r (Fin 0.4) False [])) rs = Inr ps"
  proof (rule comprehension_total)
    fix x assume "x \<in> set rs"
    from assms[OF this] obtain x1 x2 x3 sc c where
      "strip_html_tags L x = Inr x1" "remove_accented_chars L x1 = Inr x2"
      "expand_contractions L x2 = Inr x3" "polarity_scores L x3 = Inr sc"
      "sc (lit ''compound'') = Some c"
      by blast
    from analyze_label[OF this, of "Fin 0.4" "[]"]
    show "\<exists>y. fst (analyze_sentiment_vader_lexicon L x (Fin 0.4) False []) = Inr y"
      by simp
  qed
  then show ?thesis
    by (simp add: vader_predicted_comprehension)
qed

lemma analyze_verbose_label:
  assumes "strip_html_tags L r = Inr r1" "remove_accented_chars L r1 = Inr r2"
    "expand_contractions L r2 = Inr r3" "polarity_scores L r3 = Inr sc"
    "sc (lit ''compound'') = Some c"
    and "analyze_sentiment_vader_lexicon L r th v out = (Inr lab, out')"
  shows "lab = (if float_ge c th then lit ''positive'' else lit ''negative'')"
proof -
  from assms(6) have "fst (analyze_sentiment_vader_lexicon L r th v out) = Inr lab" by simp
  from analyze_Inr_chain[OF this] assms(1-5) show ?thesis by auto
qed

subsection \<open>Sequencing\<close>


lemma load_dataset_Inr:
  "load_dataset L out = (Inr d, out1) \<Longrightarrow>
   read_csv L (lit ''movie_reviews.csv.bz2'') (lit ''bz2'') = Inr d"
  by (auto simp add: load_dataset_def split: sum.splits)

lemma bind_io_InrE:
  assumes "bind_io m f out = (Inr v, out')"
  obtains a out1 where "m out = (Inr a, out1)" and "f a out1 = (Inr v, out')"
  using assms by (auto simp add: bind_io_def split: prod.splits sum.splits)

lemma analyze_raises:
  "strip_html_tags L r = Inl e \<Longrightarrow> analyze_sentiment_vader_lexicon L r th v out = (Inl e, out)"
  "strip_html_tags L r = Inr r1 \<Longrightarrow> remove_accented_chars L r1 = Inl e \<Longrightarrow>
     analyze_sentiment_vader_lexicon L r th v out = (Inl e, out)"
  "strip_html_tags L r = Inr r1 \<Longrightarrow> remove_accented_chars L r1 = Inr r2 \<Longrightarrow>
   expand_contractions L r2 = Inl e \<Longrightarrow>
     analyze_sentiment_vader_lexicon L r th v out = (Inl e, out)"
  "strip_html_tags L r = Inr r1 \<Longrightarrow> remove_accented_chars L r1 = Inr r2 \<Longrightarrow>
   expand_contractions L r2 = Inr r3 \<Longrightarrow> polarity_scores L r3 = Inl e \<Longrightarrow>
     analyze_sentiment_vader_lexicon L r th v out = (Inl e, out)"
  by (simp_all add: analyze_sentiment_vader_lexicon_def)

subsection \<open>The result of a run does not depend on what was printed\<close>






lemma fst_vader_samples_at:
  assumes th: "th = Fin 0.4"
  shows "fst (vader_samples L pairs out) =
     (case comprehension (\<lambda>x. fst (analyze_sentiment_vader_lexicon L x th True []))
             (map fst pairs) of
        Inl e \<Rightarrow> Inl e
      | Inr labels \<Rightarrow> Inr ())"
proof (induction pairs arbitrary: out)
  case Nil
  then show ?case by simp
next
  case (Cons p pairs)
  obtain review sentiment where p: "p = (review, sentiment)" by (cases p)
  let ?o = "print2 (lit ''Actual Sentiment:'') sentiment (print2 (lit ''REVIEW:'') review out)"
  have step: "vader_samples L (p # pairs) out =
      (case analyze_sentiment_vader_lexicon L review th True ?o of
         (Inl e, out3) \<Rightarrow> (Inl e, out3)
       | (Inr pred, out3) \<Rightarrow> vader_samples L pairs (print1 (replicate 60 45) out3))"
    by (simp add: p th Let_def)
  obtain res o3 where a: "analyze_sentiment_vader_lexicon L review th True ?o = (res, o3)"
    by (cases "analyze_sentiment_vader_lexicon L review th True ?o")
  with analyze_fst_indep[of L review th True ?o "[]"]
  have r: "fst (analyze_sentiment_vader_lexicon L review th True []) = res"
    by simp
  show ?case
    unfolding step a
    by (cases res) (simp_all add: p r Cons split: sum.splits)
qed

lemma fst_vader_samples:
  "fst (vader_samples L pairs out) =
     (case comprehension (\<lambda>x. fst (analyze_sentiment_vader_lexicon L x (Fin 0.4) True []))
             (map fst pairs) of
        Inl e \<Rightarrow> Inl e
      | Inr labels \<Rightarrow> Inr ())"
  by (rule fst_vader_samples_at) simp



subsection \<open>Which reviews a run hands to the libraries\<close>

lemma bind_io_returns:
  "m out = (Inr v, out1) \<Longrightarrow> bind_io m f out = f v out1"
  by (simp add: bind_io_def)

lemma bind_io_quiet_Inr: "bind_io (quiet (Inr v)) f = f v"
  by (rule ext) (simp add: bind_io_def quiet_def)

lemma bind_io_quiet_Inl: "bind_io (quiet (Inl e)) f out = (Inl e, out)"
  by (simp add: bind_io_def quiet_def)

lemma take_ids_subset:
  "take_ids xs ids = Inr ys \<Longrightarrow> set ys \<subseteq> set xs"
proof
  fix y assume t: "take_ids xs ids = Inr ys" and "y \<in> set ys"
  then obtain k where k: "k < length ys" "ys ! k = y"
    by (auto simp add: in_set_conv_nth)
  from t have c: "comprehension
      (\<lambda>i. if i < length xs then Inr (xs ! i) else Inl IndexError) ids = Inr ys"
    by (simp add: take_ids_def)
  from comprehension_length[OF c] k have "k < length ids" by simp
  from comprehension_nth[OF c this] k show "y \<in> set xs"
    by (metis Inl_Inr_False nth_mem sum.inject(2))
qed

lemma sample_pairs_subset:
  "sample_pairs reviews sentiments = Inr pairs \<Longrightarrow> fst ` set pairs \<subseteq> set reviews"
  by (auto simp add: sample_pairs_def split: sum.splits
      dest!: take_ids_subset dest: set_zip_leftD)

lemma print_samples_cong:
  "(\<And>x. x \<in> fst ` set pairs \<Longrightarrow> sc x = sc' x) \<Longrightarrow>
   print_samples sc fs pairs out = print_samples sc' fs pairs out"
proof (induction pairs arbitrary: out)
  case Nil
  then show ?case by simp
next
  case (Cons p pairs)
  obtain review sentiment where p: "p = (review, sentiment)" by (cases p)
  from Cons.prems have "sc review = sc' review" by (simp add: p)
  moreover from Cons have "\<And>w. print_samples sc fs pairs w = print_samples sc' fs pairs w"
    by simp
  ultimately show ?case by (simp add: p Let_def split: sum.splits)
qed

lemma analyze_entry_cong:
  assumes "h r = soup_get_text L r"
  shows "analyze_sentiment_vader_lexicon
           (L\<lparr>textblob_polarity := f, afinn_score := g, soup_get_text := h\<rparr>) r th v out =
         analyze_sentiment_vader_lexicon L r th v out"
proof -
  let ?L = "L\<lparr>textblob_polarity := f, afinn_score := g, soup_get_text := h\<rparr>"
  have s: "strip_html_tags ?L r = strip_html_tags L r"
    by (simp add: strip_html_tags_def assms)
  have a: "\<And>t. remove_accented_chars ?L t = remove_accented_chars L t"
    by (simp add: remove_accented_chars_def)
  have c: "\<And>t. expand_contractions ?L t = expand_contractions L t"
    by (simp add: expand_contractions_def)
  show ?thesis
    by (simp add: analyze_sentiment_vader_lexicon_def s a c Let_def cong: sum.case_cong if_cong)
qed

lemma vader_samples_cong:
  assumes "\<And>x. x \<in> fst ` set pairs \<Longrightarrow> h x = soup_get_text L x"
  shows "vader_samples (L\<lparr>textblob_polarity := f, afinn_score := g, soup_get_text := h\<rparr>)
           pairs out = vader_samples L pairs out"
  using assms
proof (induction pairs arbitrary: out)
  case Nil
  then show ?case by simp
next
  case (Cons p pairs)
  obtain review sentiment where p: "p = (review, sentiment)" by (cases p)
  from Cons.prems have "h review = soup_get_text L review" by (simp add: p)
  note a = analyze_entry_cong[where h = h and L = L and r = review, OF this]
  from Cons have "\<And>w. vader_samples
      (L\<lparr>textblob_polarity := f, afinn_score := g, soup_get_text := h\<rparr>) pairs w =
      vader_samples L pairs w"
    by simp
  then show ?case by (simp add: p Let_def a split: prod.splits sum.splits)
qed

lemma vader_predicted_cong:
  assumes "\<And>x. x \<in> set rs \<Longrightarrow> h x = soup_get_text L x"
  shows "vader_predicted_sentiments
           (L\<lparr>textblob_polarity := f, afinn_score := g, soup_get_text := h\<rparr>) rs out =
         vader_predicted_sentiments L rs out"
  unfolding vader_predicted_comprehension
  by (simp, intro comprehension_cong) (simp add: analyze_entry_cong assms)

lemma notebook_scores_test_split_only:
  assumes agree: "\<And>dataset reviews x.
      read_csv L (lit ''movie_reviews.csv.bz2'') (lit ''bz2'') = Inr dataset \<Longrightarrow>
      test_reviews dataset = Inr reviews \<Longrightarrow> x \<in> set reviews \<Longrightarrow>
      f x = textblob_polarity L x \<and> g x = afinn_score L x \<and> h x = soup_get_text L x"
  shows "notebook (L\<lparr>textblob_polarity := f, afinn_score := g, soup_get_text := h\<rparr>) out =
         notebook L out"
proof -
  let ?L = "L\<lparr>textblob_polarity := f, afinn_score := g, soup_get_text := h\<rparr>"
  have load: "load_dataset ?L = load_dataset L"
    by (rule ext) (simp add: load_dataset_def split: sum.splits)
  have metrics: "\<And>t p. display_metrics ?L t p = display_metrics L t p"
    by (rule ext) (simp add: display_metrics_def)
  obtain res o1 where l: "load_dataset L out = (res, o1)"
    by (cases "load_dataset L out")
  show ?thesis
  proof (cases res)
    case (Inl e)
    with l show ?thesis by (simp add: notebook_def bind_io_def load)
  next
    case (Inr dataset)
    with l have l': "load_dataset L out = (Inr dataset, o1)" by simp
    note br = bind_io_returns[where m = "load_dataset L" and out = out, OF l']
    from l' have rc: "read_csv L (lit ''movie_reviews.csv.bz2'') (lit ''bz2'') = Inr dataset"
      by (rule load_dataset_Inr)
    show ?thesis
    proof (cases "test_reviews dataset")
      case (Inl e)
      then show ?thesis
        by (simp add: notebook_def load br bind_io_quiet_Inl)
    next
      case tr: (Inr reviews)
      from agree[OF rc tr]
      have ag: "\<And>x. x \<in> set reviews \<Longrightarrow>
          f x = textblob_polarity L x \<and> g x = afinn_score L x \<and> h x = soup_get_text L x"
        by blast
      have tb: "textblob_sentiment_polarity ?L reviews = textblob_sentiment_polarity L reviews"
        unfolding textblob_sentiment_polarity_def
        by (intro comprehension_cong) (simp add: ag)
      have af: "afinn_sentiment_polarity ?L reviews = afinn_sentiment_polarity L reviews"
        unfolding afinn_sentiment_polarity_def
        by (intro comprehension_cong) (simp add: ag)
      have vp: "vader_predicted_sentiments ?L reviews = vader_predicted_sentiments L reviews"
        by (rule ext, rule vader_predicted_cong) (simp add: ag)
      show ?thesis
      proof (cases "test_sentiments dataset")
        case (Inl e)
        then show ?thesis
          by (simp add: notebook_def load br tr bind_io_quiet_Inl
              bind_io_quiet_Inr)
      next
        case ts: (Inr sentiments)
        show ?thesis
        proof (cases "sample_pairs reviews sentiments")
          case (Inl e)
          then show ?thesis
            by (simp add: notebook_def load br tr ts bind_io_quiet_Inl
                bind_io_quiet_Inr)
        next
          case sp: (Inr pairs)
          from sample_pairs_subset[OF sp] ag
          have agp: "\<And>x. x \<in> fst ` set pairs \<Longrightarrow>
              f x = textblob_polarity L x \<and> g x = afinn_score L x \<and> h x = soup_get_text L x"
            by blast
          have ps1: "print_samples f (float_str L) pairs =
              print_samples (textblob_polarity L) (float_str L) pairs"
            by (rule ext, rule print_samples_cong) (simp add: agp)
          have ps2: "print_samples g (float_str L) pairs =
              print_samples (afinn_score L) (float_str L) pairs"
            by (rule ext, rule print_samples_cong) (simp add: agp)
          have vs: "vader_samples ?L pairs = vader_samples L pairs"
            by (rule ext, rule vader_samples_cong) (simp add: agp)
          show ?thesis
            by (simp add: notebook_def load br tr ts sp bind_io_quiet_Inr
                tb af ps1 ps2 vs vp metrics)
        qed
      qed
    qed
  qed
qed

lemma analyze_scorer_cong:
  assumes "\<And>r1 r2 r3. strip_html_tags L r = Inr r1 \<Longrightarrow> remove_accented_chars L r1 = Inr r2 \<Longrightarrow>
      expand_contractions L r2 = Inr r3 \<Longrightarrow> p r3 = polarity_scores L r3"
  shows "analyze_sentiment_vader_lexicon (L\<lparr>polarity_scores := p\<rparr>) r th v out =
         analyze_sentiment_vader_lexicon L r th v out"
proof (cases "strip_html_tags L r")
  case (Inl e)
  then show ?thesis
    by (simp add: analyze_raises(1) strip_ignores_scorer)
next
  case s: (Inr r1)
  show ?thesis
  proof (cases "remove_accented_chars L r1")
    case (Inl e)
    with s show ?thesis
      by (simp add: analyze_raises(2) strip_ignores_scorer remove_ignores_scorer)
  next
    case a: (Inr r2)
    show ?thesis
    proof (cases "expand_contractions L r2")
      case (Inl e)
      with s a show ?thesis
        by (simp add: analyze_raises(3) strip_ignores_scorer remove_ignores_scorer
            expand_ignores_scorer)
    next
      case c: (Inr r3)
      from assms[OF s a c] s a c show ?thesis
        by (simp add: analyze_scorer_at_preprocessed)
    qed
  qed
qed

lemma vader_samples_scorer_cong:
  assumes "\<And>x r1 r2 r3. x \<in> fst ` set pairs \<Longrightarrow> strip_html_tags L x = Inr r1 \<Longrightarrow>
      remove_accented_chars L r1 = Inr r2 \<Longrightarrow> expand_contractions L r2 = Inr r3 \<Longrightarrow>
      p r3 = polarity_scores L r3"
  shows "vader_samples (L\<lparr>polarity_scores := p\<rparr>) pairs out = vader_samples L pairs out"
  using assms
proof (induction pairs arbitrary: out)
  case Nil
  then show ?case by simp
next
  case (Cons q pairs)
  obtain review sentiment where q: "q = (review, sentiment)" by (cases q)
  have a: "\<And>th v w. analyze_sentiment_vader_lexicon (L\<lparr>polarity_scores := p\<rparr>) review th v w =
      analyze_sentiment_vader_lexicon L review th v w"
    by (rule analyze_scorer_cong) (rule Cons.prems, simp_all add: q)
  have "\<And>w. vader_samples (L\<lparr>polarity_scores := p\<rparr>) pairs w = vader_samples L pairs w"
    by (rule Cons.IH) (rule Cons.prems, auto)
  then show ?case by (simp add: q Let_def a split: prod.splits sum.splits)
qed

lemma vader_predicted_scorer_cong:
  assumes "\<And>x r1 r2 r3. x \<in> set rs \<Longrightarrow> strip_html_tags L x = Inr r1 \<Longrightarrow>
      remove_accented_chars L r1 = Inr r2 \<Longrightarrow> expand_contractions L r2 = Inr r3 \<Longrightarrow>
      p r3 = polarity_scores L r3"
  shows "vader_predicted_sentiments (L\<lparr>polarity_scores := p\<rparr>) rs out =
         vader_predicted_sentiments L rs out"
  unfolding vader_predicted_comprehension
  by (simp, intro comprehension_cong) (simp add: analyze_scorer_cong assms)

lemma notebook_vader_scorer_test_split_only:
  assumes agree: "\<And>dataset reviews x r1 r2 r3.
      read_csv L (lit ''movie_reviews.csv.bz2'') (lit ''bz2'') = Inr dataset \<Longrightarrow>
      test_reviews dataset = Inr reviews \<Longrightarrow> x \<in> set reviews \<Longrightarrow>
      strip_html_tags L x = Inr r1 \<Longrightarrow> remove_accented_chars L r1 = Inr r2 \<Longrightarrow>
      expand_contractions L r2 = Inr r3 \<Longrightarrow> p r3 = polarity_scores L r3"
  shows "notebook (L\<lparr>polarity_scores := p\<rparr>) out = notebook L out"
proof -
  let ?L = "L\<lparr>polarity_scores := p\<rparr>"
  have load: "load_dataset ?L = load_dataset L"
    by (rule ext) (simp add: load_dataset_def split: sum.splits)
  have metrics: "\<And>t q. display_metrics ?L t q = display_metrics L t q"
    by (rule ext) (simp add: display_metrics_def)
  have tb: "\<And>rs. textblob_sentiment_polarity ?L rs = textblob_sentiment_polarity L rs"
    by (simp add: textblob_sentiment_polarity_def)
  have af: "\<And>rs. afinn_sentiment_polarity ?L rs = afinn_sentiment_polarity L rs"
    by (simp add: afinn_sentiment_polarity_def)
  obtain res o1 where l: "load_dataset L out = (res, o1)"
    by (cases "load_dataset L out")
  show ?thesis
  proof (cases res)
    case (Inl e)
    with l show ?thesis by (simp add: notebook_def bind_io_def load)
  next
    case (Inr dataset)
    with l have l': "load_dataset L out = (Inr dataset, o1)" by simp
    note br = bind_io_returns[where m = "load_dataset L" and out = out, OF l']
    from l' have rc: "read_csv L (lit ''movie_reviews.csv.bz2'') (lit ''bz2'') = Inr dataset"
      by (rule load_dataset_Inr)
    show ?thesis
    proof (cases "test_reviews dataset")
      case (Inl e)
      then show ?thesis
        by (simp add: notebook_def load br bind_io_quiet_Inl)
    next
      case tr: (Inr reviews)
      note ag = agree[OF rc tr]
      have vp: "vader_predicted_sentiments ?L reviews = vader_predicted_sentiments L reviews"
        by (rule ext, rule vader_predicted_scorer_cong) (rule ag)
      show ?thesis
      proof (cases "test_sentiments dataset")
        case (Inl e)
        then show ?thesis
          by (simp add: notebook_def load br tr bind_io_quiet_Inl
              bind_io_quiet_Inr)
      next
        case ts: (Inr sentiments)
        show ?thesis
        proof (cases "sample_pairs reviews sentiments")
          case (Inl e)
          then show ?thesis
            by (simp add: notebook_def load br tr ts bind_io_quiet_Inl
                bind_io_quiet_Inr)
        next
          case sp: (Inr pairs)
          have vs: "vader_samples ?L pairs = vader_samples L pairs"
          proof (rule ext, rule vader_samples_scorer_cong)
            fix x r1 r2 r3
            assume "x \<in> fst ` set pairs"
            with sample_pairs_subset[OF sp] have "x \<in> set reviews" by blast
            moreover assume "strip_html_tags L x = Inr r1" "remove_accented_chars L r1 = Inr r2"
              "expand_contractions L r2 = Inr r3"
            ultimately show "p r3 = polarity_scores L r3" by (rule ag)
          qed
          show ?thesis
            by (simp add: notebook_def load br tr ts sp bind_io_quiet_Inr
                tb af vs vp metrics)
        qed
      qed
    qed
  qed
qed

subsection \<open>What a run prints\<close>

lemma print_samples_grows:
  "print_samples sc fs pairs out = (res, out') \<Longrightarrow> set out \<subseteq> set out'"
proof (induction pairs arbitrary: out)
  case Nil
  then show ?case by simp
next
  case (Cons p pairs)
  obtain review sentiment where p: "p = (review, sentiment)" by (cases p)
  show ?case
  proof (cases "sc review")
    case (Inl e)
    with Cons.prems show ?thesis
      by (auto simp add: p Let_def print2_def)
  next
    case (Inr score)
    let ?w = "print1 (replicate 60 45)
        (print2 (lit ''Predicted Sentiment polarity:'') (fs score)
          (print2 (lit ''Actual Sentiment:'') sentiment (print2 (lit ''REVIEW:'') review out)))"
    from Cons.prems Inr have "print_samples sc fs pairs ?w = (res, out')"
      by (simp add: p Let_def)
    then have "set ?w \<subseteq> set out'" by (rule Cons.IH)
    moreover have "set out \<subseteq> set ?w" by (auto simp add: print1_def print2_def)
    ultimately show ?thesis by blast
  qed
qed

lemma analyze_grows:
  "analyze_sentiment_vader_lexicon L r th v out = (res, out') \<Longrightarrow> set out \<subseteq> set out'"
  by (auto simp add: analyze_sentiment_vader_lexicon_def Let_def print1_def
      split: sum.splits if_splits)

lemma vader_samples_grows:
  "vader_samples L pairs out = (res, out') \<Longrightarrow> set out \<subseteq> set out'"
proof (induction pairs arbitrary: out)
  case Nil
  then show ?case by simp
next
  case (Cons p pairs)
  obtain review sentiment where p: "p = (review, sentiment)" by (cases p)
  let ?w = "print2 (lit ''Actual Sentiment:'') sentiment (print2 (lit ''REVIEW:'') review out)"
  obtain r3 o3 where a: "analyze_sentiment_vader_lexicon L review (Fin 0.4) True ?w = (r3, o3)"
    by (cases "analyze_sentiment_vader_lexicon L review (Fin 0.4) True ?w")
  have w: "set out \<subseteq> set ?w" by (auto simp add: print2_def)
  from analyze_grows[OF a] have g: "set ?w \<subseteq> set o3" .
  have step: "vader_samples L (p # pairs) out =
      (case r3 of Inl e \<Rightarrow> (Inl e, o3)
       | Inr pred \<Rightarrow> vader_samples L pairs (print1 (replicate 60 45) o3))"
    using a by (simp add: p Let_def)
  show ?case
  proof (cases r3)
    case (Inl e)
    with Cons.prems step have "out' = o3" by simp
    with w g show ?thesis by blast
  next
    case (Inr pred)
    with Cons.prems step
    have "vader_samples L pairs (print1 (replicate 60 45) o3) = (res, out')" by simp
    then have "set (print1 (replicate 60 45) o3) \<subseteq> set out'" by (rule Cons.IH)
    moreover have "set o3 \<subseteq> set (print1 (replicate 60 45) o3)" by (auto simp add: print1_def)
    ultimately show ?thesis using w g by blast
  qed
qed

lemma display_metrics_Inr:
  "display_metrics L t p out = (Inr u, out') \<Longrightarrow>
   \<exists>report. display_model_performance_metrics L t p [lit ''positive'', lit ''negative''] =
     Inr report \<and> out' = out @ [report]"
  by (auto simp add: display_metrics_def print1_def split: sum.splits)

lemma test_reviews_Inr:
  "test_reviews dataset = Inr reviews \<Longrightarrow>
   \<exists>rv. dataset (lit ''review'') = Some rv \<and> reviews = drop 35000 rv"
  by (auto simp add: test_reviews_def getitem_def split: option.splits)

lemma test_sentiments_Inr:
  "test_sentiments dataset = Inr sentiments \<Longrightarrow>
   \<exists>sv. dataset (lit ''sentiment'') = Some sv \<and> sentiments = drop 35000 sv"
  by (auto simp add: test_sentiments_def getitem_def split: option.splits)

lemma strip_html_tags_Inr:
  "strip_html_tags L r = Inr r1 \<longleftrightarrow>
     (\<exists>t. soup_get_text L r = Inr t \<and> r1 = re_sub_breaks False t)"
  by (auto simp add: strip_html_tags_def split: sum.splits)

lemma remove_accented_chars_Inr:
  "remove_accented_chars L r = Inr r2 \<longleftrightarrow>
     (\<exists>t. normalize_nfkd L r = Inr t \<and> r2 = filter (\<lambda>c. c < 128) t)"
  by (auto simp add: remove_accented_chars_def split: sum.splits)

lemma analyze_verbose_Inr:
  assumes "analyze_sentiment_vader_lexicon L r th True out = (Inr lab, out')"
  shows "\<exists>r1 r2 r3 sc c p n u frame.
     strip_html_tags L r = Inr r1 \<and> remove_accented_chars L r1 = Inr r2 \<and>
     expand_contractions L r2 = Inr r3 \<and> polarity_scores L r3 = Inr sc \<and>
     sc (lit ''compound'') = Some c \<and> sc (lit ''pos'') = Some p \<and>
     sc (lit ''neg'') = Some n \<and> sc (lit ''neu'') = Some u \<and>
     lab = (if float_ge c th then lit ''positive'' else lit ''negative'') \<and>
     sentiment_frame L lab c p n u = Inr frame \<and> out' = out @ [frame]"
  using assms
  by (auto simp add: analyze_sentiment_vader_lexicon_def Let_def getitem_def print1_def
      split: sum.splits option.splits if_splits)

lemma vader_samples_calls:
  assumes th: "th = Fin 0.4"
  shows "vader_samples L pairs out = (Inr u, out') \<Longrightarrow> (r, s) \<in> set pairs \<Longrightarrow>
     \<exists>w lab w'. analyze_sentiment_vader_lexicon L r th True w = (Inr lab, w') \<and>
       set w' \<subseteq> set out'"
proof (induction pairs arbitrary: out)
  case Nil
  then show ?case by simp
next
  case (Cons p pairs)
  obtain review sentiment where p: "p = (review, sentiment)" by (cases p)
  let ?w = "print2 (lit ''Actual Sentiment:'') sentiment (print2 (lit ''REVIEW:'') review out)"
  obtain r3 o3 where a: "analyze_sentiment_vader_lexicon L review th True ?w = (r3, o3)"
    by (cases "analyze_sentiment_vader_lexicon L review th True ?w")
  have step: "vader_samples L (p # pairs) out =
      (case r3 of Inl e \<Rightarrow> (Inl e, o3)
       | Inr pred \<Rightarrow> vader_samples L pairs (print1 (replicate 60 45) o3))"
    using a by (simp add: p th Let_def)
  from Cons.prems(1) step obtain pred where r3: "r3 = Inr pred"
    and rest: "vader_samples L pairs (print1 (replicate 60 45) o3) = (Inr u, out')"
    by (cases r3) simp_all
  show ?case
  proof (cases "(r, s) = p")
    case True
    with p have "r = review" by simp
    moreover from vader_samples_grows[OF rest] have "set o3 \<subseteq> set out'"
      by (auto simp add: print1_def)
    ultimately show ?thesis using a r3 by blast
  next
    case False
    with Cons.prems(2) have "(r, s) \<in> set pairs" by simp
    from Cons.IH[OF rest this] show ?thesis .
  qed
qed

lemma vader_samples_prints:
  assumes run: "vader_samples L pairs out = (Inr u, out')" and mem: "(r, s) \<in> set pairs"
    and chain: "strip_html_tags L r = Inr r1" "remove_accented_chars L r1 = Inr r2"
      "expand_contractions L r2 = Inr r3" "polarity_scores L r3 = Inr sc"
      "sc (lit ''compound'') = Some c"
  shows "\<exists>p n u frame. sc (lit ''pos'') = Some p \<and> sc (lit ''neg'') = Some n \<and>
      sc (lit ''neu'') = Some u \<and>
      sentiment_frame L (if float_ge c (Fin 0.4) then lit ''positive'' else lit ''negative'')
        c p n u = Inr frame \<and> frame \<in> set out'"
proof -
  from vader_samples_calls[OF refl run mem] obtain w lab w' where
    a: "analyze_sentiment_vader_lexicon L r (Fin 0.4) True w = (Inr lab, w')"
    and sub: "set w' \<subseteq> set out'"
    by blast
  from analyze_verbose_Inr[OF a] chain sub show ?thesis
    by auto
qed

lemma notebook_reports:
  assumes "notebook L out = (Inr ev, out')"
  shows "\<exists>dataset rv sv sp1 sp2 ps report1 report2 report3.
    read_csv L (lit ''movie_reviews.csv.bz2'') (lit ''bz2'') = Inr dataset \<and>
    dataset (lit ''review'') = Some rv \<and> dataset (lit ''sentiment'') = Some sv \<and>
    comprehension (textblob_polarity L) (drop 35000 rv) = Inr sp1 \<and>
    comprehension (afinn_score L) (drop 35000 rv) = Inr sp2 \<and>
    comprehension (\<lambda>x. fst (analyze_sentiment_vader_lexicon L x (Fin 0.4) False []))
      (drop 35000 rv) = Inr ps \<and>
    display_model_performance_metrics L (drop 35000 sv) (textblob_predicted_sentiments sp1)
      [lit ''positive'', lit ''negative''] = Inr report1 \<and>
    display_model_performance_metrics L (drop 35000 sv) (afinn_predicted_sentiments sp2)
      [lit ''positive'', lit ''negative''] = Inr report2 \<and>
    display_model_performance_metrics L (drop 35000 sv) ps
      [lit ''positive'', lit ''negative''] = Inr report3 \<and>
    {report1, report2, report3} \<subseteq> set out' \<and>
    ev = \<lparr> reviews_scored = drop 35000 rv, true_sentiments = drop 35000 sv,
           textblob_predicted = textblob_predicted_sentiments sp1,
           afinn_predicted = afinn_predicted_sentiments sp2,
           vader_predicted = ps \<rparr>"
proof -
  from assms obtain dataset o1 reviews sentiments pairs o2 sp1 o3 o4 sp2 o5 o6 ps o7 where
    ld: "load_dataset L out = (Inr dataset, o1)" and
    tr: "test_reviews dataset = Inr reviews" and
    ts: "test_sentiments dataset = Inr sentiments" and
    c1: "textblob_sentiment_polarity L reviews = Inr sp1" and
    m1: "display_metrics L sentiments (textblob_predicted_sentiments sp1) o2 = (Inr (), o3)" and
    p2: "print_samples (afinn_score L) (float_str L) pairs o3 = (Inr (), o4)" and
    c2: "afinn_sentiment_polarity L reviews = Inr sp2" and
    m2: "display_metrics L sentiments (afinn_predicted_sentiments sp2) o4 = (Inr (), o5)" and
    v3: "vader_samples L pairs o5 = (Inr (), o6)" and
    c3: "vader_predicted_sentiments L reviews o6 = (Inr ps, o7)" and
    m3: "display_metrics L sentiments ps o7 = (Inr (), out')" and
    ev: "ev = \<lparr> reviews_scored = reviews, true_sentiments = sentiments,
           textblob_predicted = textblob_predicted_sentiments sp1,
           afinn_predicted = afinn_predicted_sentiments sp2,
           vader_predicted = ps \<rparr>"
    unfolding notebook_def
    by (elim bind_io_InrE) (auto simp add: quiet_def)
  from load_dataset_Inr[OF ld]
  have rc: "read_csv L (lit ''movie_reviews.csv.bz2'') (lit ''bz2'') = Inr dataset" .
  from test_reviews_Inr[OF tr] obtain rv where
    rv: "dataset (lit ''review'') = Some rv" "reviews = drop 35000 rv" by blast
  from test_sentiments_Inr[OF ts] obtain sv where
    sv: "dataset (lit ''sentiment'') = Some sv" "sentiments = drop 35000 sv" by blast
  from display_metrics_Inr[OF m1] obtain report1 where
    r1: "display_model_performance_metrics L sentiments (textblob_predicted_sentiments sp1)
      [lit ''positive'', lit ''negative''] = Inr report1" "o3 = o2 @ [report1]" by blast
  from display_metrics_Inr[OF m2] obtain report2 where
    r2: "display_model_performance_metrics L sentiments (afinn_predicted_sentiments sp2)
      [lit ''positive'', lit ''negative''] = Inr report2" "o5 = o4 @ [report2]" by blast
  from display_metrics_Inr[OF m3] obtain report3 where
    r3: "display_model_performance_metrics L sentiments ps
      [lit ''positive'', lit ''negative''] = Inr report3" "out' = o7 @ [report3]" by blast
  from c3 have o7: "o7 = o6" and
    c3': "comprehension (\<lambda>x. fst (analyze_sentiment_vader_lexicon L x (Fin 0.4) False []))
      reviews = Inr ps"
    by (simp_all add: vader_predicted_comprehension)
  from print_samples_grows[OF p2] vader_samples_grows[OF v3] r1(2) r2(2) r3(2) o7
  have "{report1, report2, report3} \<subseteq> set out'"
    by auto
  with rc rv sv r1(1) r2(1) r3(1) c1 c2 c3' ev show ?thesis
    unfolding textblob_sentiment_polarity_def afinn_sentiment_polarity_def
    by blast
qed

lemma vader_call_sites:
  assumes ch: "strip_html_tags L r = Inr r1" "remove_accented_chars L r1 = Inr r2"
      "expand_contractions L r2 = Inr r3" "polarity_scores L r3 = Inr sc"
      "sc (lit ''compound'') = Some c"
  shows "analyze_sentiment_vader_lexicon_default L r out =
        (Inr (if float_ge c (Fin 0.1) then lit ''positive'' else lit ''negative''), out)"
    and "vader_predicted_sentiments L rs out = (Inr ps, out') \<Longrightarrow> j < length rs \<Longrightarrow>
         rs ! j = r \<Longrightarrow>
         ps ! j = (if float_ge c (Fin 0.4) then lit ''positive'' else lit ''negative'')"
    and "vader_samples L pairs out = (Inr u, out') \<Longrightarrow> (r, s) \<in> set pairs \<Longrightarrow>
         \<exists>p n q frame. sc (lit ''pos'') = Some p \<and> sc (lit ''neg'') = Some n \<and>
            sc (lit ''neu'') = Some q \<and>
            sentiment_frame L
              (if float_ge c (Fin 0.4) then lit ''positive'' else lit ''negative'')
              c p n q = Inr frame \<and>
            frame \<in> set out'"
proof -
  have lab: "\<And>th o1. analyze_sentiment_vader_lexicon L r th False o1 =
      (Inr (if float_ge c th then lit ''positive'' else lit ''negative''), o1)"
    by (rule analyze_label[OF ch])
  show "analyze_sentiment_vader_lexicon_default L r out =
      (Inr (if float_ge c (Fin 0.1) then lit ''positive'' else lit ''negative''), out)"
    by (simp add: analyze_sentiment_vader_lexicon_default_def default_threshold_def
        default_verbose_def lab)
  show "ps ! j = (if float_ge c (Fin 0.4) then lit ''positive'' else lit ''negative'')"
    if b: "vader_predicted_sentiments L rs out = (Inr ps, out')" "j < length rs" "rs ! j = r"
  proof -
    from b(1) have cm: "comprehension
        (\<lambda>r. fst (analyze_sentiment_vader_lexicon L r (Fin 0.4) False [])) rs = Inr ps"
      by (simp add: vader_predicted_comprehension)
    from comprehension_nth[OF cm b(2)] b(3)
    have "fst (analyze_sentiment_vader_lexicon L r (Fin 0.4) False []) = Inr (ps ! j)"
      by simp
    then show ?thesis by (simp add: lab)
  qed
  show "\<exists>p n q frame. sc (lit ''pos'') = Some p \<and> sc (lit ''neg'') = Some n \<and>
            sc (lit ''neu'') = Some q \<and>
            sentiment_frame L
              (if float_ge c (Fin 0.4) then lit ''positive'' else lit ''negative'')
              c p n q = Inr frame \<and>
            frame \<in> set out'"
    if run: "vader_samples L pairs out = (Inr u, out')" and mem: "(r, s) \<in> set pairs"
    by (rule vader_samples_prints[OF run mem ch])
qed

subsection \<open>The small library instance, evaluated\<close>

lemma demo_strip_good:
  "strip_html_tags demo_library (lit ''<b>good</b>'') = Inr (lit ''good'')"
  by (simp add: strip_html_tags_def demo_library_def lit_def is_break_def)

lemma demo_remove_good:
  "remove_accented_chars demo_library (lit ''good'') = Inr (lit ''good'')"
  by (simp add: remove_accented_chars_def demo_library_def lit_def)

lemma demo_expand: "expand_contractions demo_library t = Inr t"
  by (simp add: expand_contractions_def demo_library_def)

lemma demo_scores_good:
  "polarity_scores demo_library (lit ''good'') = Inr (demo_polarity_scores (lit ''good''))"
  by (simp add: demo_library_def)

lemma demo_compound_good:
  "demo_polarity_scores (lit ''good'') (lit ''compound'') = Some (Fin 0.7)"
  by (simp add: demo_polarity_scores_def demo_score_def lit_def)

lemma demo_analyze_good:
  "analyze_sentiment_vader_lexicon demo_library (lit ''<b>good</b>'') th False out =
     (Inr (if float_ge (Fin 0.7) th then lit ''positive'' else lit ''negative''), out)"
  by (rule analyze_label[OF demo_strip_good demo_remove_good demo_expand demo_scores_good
      demo_compound_good])

lemma demo_fields:
  "read_csv demo_library path compression = Inr demo_dataset"
  "dataframe_info demo_library d = Inr (lit ''2 columns'')"
  "textblob_polarity demo_library t = Inr (Fin (demo_score t))"
  "afinn_score demo_library t = Inr (Fin (10 * demo_score t))"
  "sentiment_frame demo_library final_sentiment final positive negative neutral =
     Inr final_sentiment"
  "float_str demo_library x = lit ''float''"
  "display_model_performance_metrics demo_library true_labels predicted_labels classes =
     Inr (lit ''report'')"
  by (simp_all add: demo_library_def)

lemma demo_other_scores:
  "demo_polarity_scores t (lit ''pos'') = Some (Fin 0.5)"
  "demo_polarity_scores t (lit ''neg'') = Some (Fin 0)"
  "demo_polarity_scores t (lit ''neu'') = Some (Fin 0.5)"
  by (simp_all add: demo_polarity_scores_def lit_def)

lemma demo_analyze_good_verbose:
  "analyze_sentiment_vader_lexicon demo_library (lit ''<b>good</b>'') th True out =
     (Inr (if float_ge (Fin 0.7) th then lit ''positive'' else lit ''negative''),
      print1 (if float_ge (Fin 0.7) th then lit ''positive'' else lit ''negative'') out)"
  by (simp add: analyze_sentiment_vader_lexicon_def demo_strip_good demo_remove_good demo_expand
      demo_scores_good getitem_def demo_compound_good demo_other_scores demo_fields Let_def)

lemma demo_textblob_markup:
  "textblob_polarity demo_library (lit ''<b>good</b>'') = Inr (Fin 0)"
  by (simp add: demo_fields demo_score_def lit_def)

lemma demo_afinn_markup:
  "afinn_score demo_library (lit ''<b>good</b>'') = Inr (Fin 0)"
  by (simp add: demo_fields demo_score_def lit_def)

lemma demo_test_reviews:
  "test_reviews demo_dataset = Inr (replicate 15000 (lit ''<b>good</b>''))"
  by (simp add: test_reviews_def getitem_def demo_dataset_def lit_def)

lemma demo_test_sentiments:
  "test_sentiments demo_dataset = Inr (replicate 15000 (lit ''positive''))"
  by (simp add: test_sentiments_def getitem_def demo_dataset_def lit_def)

lemma demo_sample_pairs:
  "sample_pairs (replicate 15000 a) (replicate 15000 b) = Inr [(a, b), (a, b), (a, b)]"
  by (simp add: sample_pairs_def take_ids_def sample_review_ids_def)

lemma demo_textblob_all:
  "textblob_sentiment_polarity demo_library (replicate n (lit ''<b>good</b>'')) =
     Inr (replicate n (Fin 0))"
  unfolding textblob_sentiment_polarity_def
  by (rule comprehension_replicate) (rule demo_textblob_markup)

lemma demo_afinn_all:
  "afinn_sentiment_polarity demo_library (replicate n (lit ''<b>good</b>'')) =
     Inr (replicate n (Fin 0))"
  unfolding afinn_sentiment_polarity_def
  by (rule comprehension_replicate) (rule demo_afinn_markup)

lemma demo_vader_all:
  "vader_predicted_sentiments demo_library (replicate n (lit ''<b>good</b>'')) out =
     (Inr (replicate n (lit ''positive'')), out)"
proof -
  have "comprehension
          (\<lambda>r. fst (analyze_sentiment_vader_lexicon demo_library r (Fin 0.4) False []))
          (replicate n (lit ''<b>good</b>'')) = Inr (replicate n (lit ''positive''))"
    by (rule comprehension_replicate) (simp add: demo_analyze_good)
  then show ?thesis
    by (simp only: vader_predicted_comprehension)
qed

lemma demo_notebook:
  "fst (notebook demo_library []) =
     Inr \<lparr> reviews_scored = replicate 15000 (lit ''<b>good</b>''),
           true_sentiments = replicate 15000 (lit ''positive''),
           textblob_predicted = replicate 15000 (lit ''negative''),
           afinn_predicted = replicate 15000 (lit ''negative''),
           vader_predicted = replicate 15000 (lit ''positive'') \<rparr>"
proof -
  have load: "load_dataset demo_library [] = (Inr demo_dataset, [lit ''2 columns''])"
    by (simp add: load_dataset_def demo_fields print1_def)
  have tb: "textblob_predicted_sentiments (replicate 15000 (Fin 0)) = replicate 15000 (lit ''negative'')"
    by (simp add: textblob_predicted_sentiments_def)
  have af: "afinn_predicted_sentiments (replicate 15000 (Fin 0)) = replicate 15000 (lit ''negative'')"
    by (simp add: afinn_predicted_sentiments_def)
  show ?thesis
    by (simp add: notebook_def bind_io_def quiet_def load demo_test_reviews demo_test_sentiments
        demo_sample_pairs demo_textblob_markup demo_afinn_markup demo_textblob_all demo_afinn_all
        demo_vader_all demo_analyze_good_verbose display_metrics_def tb af demo_fields)
qed

lemmas demo_eval =
  analyze_sentiment_vader_lexicon_def strip_html_tags_def remove_accented_chars_def
  expand_contractions_def textblob_sentiment_polarity_def afinn_sentiment_polarity_def
  textblob_predicted_sentiments_def afinn_predicted_sentiments_def
  demo_library_def picky_library_def demo_polarity_scores_def demo_score_def getitem_def
  is_break_def lit_def print1_def Let_def








subsection \<open>The threshold classifier\<close>

text \<open>
  Claim C1. Every pipeline labels a score \<open>positive\<close> exactly when the score is at least
  the pipeline's cutoff and \<open>negative\<close> otherwise: cutoff 0.1 on the TextBlob scores,
  1.0 on the AFINN scores, and 0.4 on the VADER compound score of the preprocessed
  review in the notebook's evaluation. A NaN score compares false and is labelled
  \<open>negative\<close>.
\<close>

theorem threshold_classifier:
  "(i < length sp \<longrightarrow>
      (textblob_predicted_sentiments sp ! i = lit ''positive'' \<longleftrightarrow> float_ge (sp ! i) (Fin 0.1)) \<and>
      (textblob_predicted_sentiments sp ! i = lit ''negative'' \<longleftrightarrow> \<not> float_ge (sp ! i) (Fin 0.1))) \<and>
   (i < length sp \<longrightarrow>
      (afinn_predicted_sentiments sp ! i = lit ''positive'' \<longleftrightarrow> float_ge (sp ! i) (Fin 1.0)) \<and>
      (afinn_predicted_sentiments sp ! i = lit ''negative'' \<longleftrightarrow> \<not> float_ge (sp ! i) (Fin 1.0))) \<and>
   (strip_html_tags L r = Inr r1 \<and> remove_accented_chars L r1 = Inr r2 \<and>
    expand_contractions L r2 = Inr r3 \<and> polarity_scores L r3 = Inr sc \<and>
    sc (lit ''compound'') = Some c \<and>
    vader_predicted_sentiments L rs out = (Inr ps, out') \<and> j < length rs \<and> rs ! j = r \<longrightarrow>
      (ps ! j = lit ''positive'' \<longleftrightarrow> float_ge c (Fin 0.4)) \<and>
      (ps ! j = lit ''negative'' \<longleftrightarrow> \<not> float_ge c (Fin 0.4)))"
proof (intro conjI impI)
  assume "i < length sp"
  then show "textblob_predicted_sentiments sp ! i = lit ''positive'' \<longleftrightarrow> float_ge (sp ! i) (Fin 0.1)"
    by (simp add: textblob_predicted_sentiments_def labels_distinct[symmetric])
next
  assume "i < length sp"
  then show "textblob_predicted_sentiments sp ! i = lit ''negative'' \<longleftrightarrow> \<not> float_ge (sp ! i) (Fin 0.1)"
    by (simp add: textblob_predicted_sentiments_def labels_distinct)
next
  assume "i < length sp"
  then show "afinn_predicted_sentiments sp ! i = lit ''positive'' \<longleftrightarrow> float_ge (sp ! i) (Fin 1.0)"
    by (simp add: afinn_predicted_sentiments_def labels_distinct[symmetric])
next
  assume "i < length sp"
  then show "afinn_predicted_sentiments sp ! i = lit ''negative'' \<longleftrightarrow> \<not> float_ge (sp ! i) (Fin 1.0)"
    by (simp add: afinn_predicted_sentiments_def labels_distinct)
next
  assume a: "strip_html_tags L r = Inr r1 \<and> remove_accented_chars L r1 = Inr r2 \<and>
    expand_contractions L r2 = Inr r3 \<and> polarity_scores L r3 = Inr sc \<and>
    sc (lit ''compound'') = Some c \<and>
    vader_predicted_sentiments L rs out = (Inr ps, out') \<and> j < length rs \<and> rs ! j = r"
  then have c: "comprehension (\<lambda>r. fst (analyze_sentiment_vader_lexicon L r (Fin 0.4) False [])) rs = Inr ps"
    by (simp add: vader_predicted_comprehension)
  from a have "fst (analyze_sentiment_vader_lexicon L r (Fin 0.4) False []) =
      Inr (if float_ge c (Fin 0.4) then lit ''positive'' else lit ''negative'')"
    by (simp add: analyze_label)
  moreover from comprehension_nth[OF c, of j] a
  have "fst (analyze_sentiment_vader_lexicon L r (Fin 0.4) False []) = Inr (ps ! j)"
    by simp
  ultimately have eq: "ps ! j = (if float_ge c (Fin 0.4) then lit ''positive'' else lit ''negative'')"
    by simp
  show "ps ! j = lit ''positive'' \<longleftrightarrow> float_ge c (Fin 0.4)"
    by (simp add: eq labels_distinct[symmetric])
  show "ps ! j = lit ''negative'' \<longleftrightarrow> \<not> float_ge c (Fin 0.4)"
    by (simp add: eq labels_distinct)
qed

theorem threshold_classifier_witness:
  "(0::nat) < length [Fin 0.7, Fin 0.05] \<and>
   textblob_predicted_sentiments [Fin 0.7, Fin 0.05] ! 0 = lit ''positive'' \<and>
   afinn_predicted_sentiments [Fin 0.7, Fin 0.05] ! 0 = lit ''negative'' \<and>
   vader_predicted_sentiments demo_library [lit ''bad'', lit ''<b>good</b>''] [] =
     (Inr [lit ''negative'', lit ''positive''], []) \<and>
   demo_polarity_scores (lit ''good'') (lit ''compound'') = Some (Fin 0.7) \<and>
   [lit ''negative'', lit ''positive''] ! 1 = lit ''positive''"
proof -
  have h: "strip_html_tags demo_library (lit ''<b>good</b>'') = Inr (lit ''good'') \<and>
      remove_accented_chars demo_library (lit ''good'') = Inr (lit ''good'') \<and>
      expand_contractions demo_library (lit ''good'') = Inr (lit ''good'') \<and>
      polarity_scores demo_library (lit ''good'') = Inr (demo_polarity_scores (lit ''good'')) \<and>
      demo_polarity_scores (lit ''good'') (lit ''compound'') = Some (Fin 0.7) \<and>
      vader_predicted_sentiments demo_library [lit ''bad'', lit ''<b>good</b>''] [] =
        (Inr [lit ''negative'', lit ''positive''], []) \<and>
      1 < length [lit ''bad'', lit ''<b>good</b>''] \<and>
      [lit ''bad'', lit ''<b>good</b>''] ! 1 = lit ''<b>good</b>''"
    by (simp add: demo_eval)
  from threshold_classifier[where i = 0 and sp = "[Fin 0.7, Fin 0.05]" and L = demo_library
      and r = "lit ''<b>good</b>''" and ?r1.0 = "lit ''good''" and ?r2.0 = "lit ''good''"
      and ?r3.0 = "lit ''good''" and sc = "demo_polarity_scores (lit ''good'')"
      and c = "Fin 0.7" and rs = "[lit ''bad'', lit ''<b>good</b>'']" and out = "[]"
      and ps = "[lit ''negative'', lit ''positive'']" and out' = "[]" and j = 1] h
  show ?thesis by simp
qed

subsection \<open>Two labels only\<close>

text \<open>
  Claim C4. Each pipeline gives one label per review, and every label is \<open>positive\<close> or
  \<open>negative\<close>: the prediction lists are as long as the list of reviews scored and hold
  no other string, whatever the VADER scores dict says about \<open>neu\<close>. Each pipeline
  returns such a list as soon as the library calls return on every review.
\<close>

theorem labels_binary:
  "(textblob_sentiment_polarity L rs = Inr sp \<longrightarrow>
      length (textblob_predicted_sentiments sp) = length rs \<and>
      set (textblob_predicted_sentiments sp) \<subseteq> {lit ''positive'', lit ''negative''}) \<and>
   (afinn_sentiment_polarity L rs = Inr sa \<longrightarrow>
      length (afinn_predicted_sentiments sa) = length rs \<and>
      set (afinn_predicted_sentiments sa) \<subseteq> {lit ''positive'', lit ''negative''}) \<and>
   (analyze_sentiment_vader_lexicon L r th v out = (Inr lab, out') \<longrightarrow>
      lab \<in> {lit ''positive'', lit ''negative''}) \<and>
   (vader_predicted_sentiments L rs out = (Inr ps, out') \<longrightarrow>
      length ps = length rs \<and> set ps \<subseteq> {lit ''positive'', lit ''negative''}) \<and>
   ((\<forall>x \<in> set rs. \<exists>s. textblob_polarity L x = Inr s) \<longrightarrow>
      (\<exists>sp. textblob_sentiment_polarity L rs = Inr sp)) \<and>
   ((\<forall>x \<in> set rs. \<exists>s. afinn_score L x = Inr s) \<longrightarrow>
      (\<exists>sa. afinn_sentiment_polarity L rs = Inr sa)) \<and>
   ((\<forall>x \<in> set rs. \<exists>x1 x2 x3 sc c.
        strip_html_tags L x = Inr x1 \<and> remove_accented_chars L x1 = Inr x2 \<and>
        expand_contractions L x2 = Inr x3 \<and> polarity_scores L x3 = Inr sc \<and>
        sc (lit ''compound'') = Some c) \<longrightarrow>
      (\<exists>ps. vader_predicted_sentiments L rs out = (Inr ps, out)))"
proof (intro conjI impI)
  assume "textblob_sentiment_polarity L rs = Inr sp"
  then show "length (textblob_predicted_sentiments sp) = length rs"
    by (simp add: textblob_sentiment_polarity_def textblob_predicted_sentiments_def
        comprehension_length)
  show "set (textblob_predicted_sentiments sp) \<subseteq> {lit ''positive'', lit ''negative''}"
    by (auto simp add: textblob_predicted_sentiments_def)
next
  assume "afinn_sentiment_polarity L rs = Inr sa"
  then show "length (afinn_predicted_sentiments sa) = length rs"
    by (simp add: afinn_sentiment_polarity_def afinn_predicted_sentiments_def
        comprehension_length)
  show "set (afinn_predicted_sentiments sa) \<subseteq> {lit ''positive'', lit ''negative''}"
    by (auto simp add: afinn_predicted_sentiments_def)
next
  assume "analyze_sentiment_vader_lexicon L r th v out = (Inr lab, out')"
  then show "lab \<in> {lit ''positive'', lit ''negative''}"
    using analyze_Inr_label by blast
next
  assume a: "vader_predicted_sentiments L rs out = (Inr ps, out')"
  then have c: "comprehension
      (\<lambda>r. fst (analyze_sentiment_vader_lexicon L r (Fin 0.4) False [])) rs = Inr ps"
    by (simp add: vader_predicted_comprehension)
  then show "length ps = length rs"
    by (rule comprehension_length)
  show "set ps \<subseteq> {lit ''positive'', lit ''negative''}"
  proof
    fix p assume "p \<in> set ps"
    then obtain i where i: "i < length ps" "ps ! i = p"
      by (auto simp add: in_set_conv_nth)
    with comprehension_length[OF c] have "i < length rs" by simp
    from comprehension_nth[OF c this] i
    have "fst (analyze_sentiment_vader_lexicon L (rs ! i) (Fin 0.4) False []) = Inr p"
      by simp
    then have "analyze_sentiment_vader_lexicon L (rs ! i) (Fin 0.4) False [] = (Inr p, [])"
      by (subst analyze_quiet) simp
    then show "p \<in> {lit ''positive'', lit ''negative''}"
      using analyze_Inr_label by blast
  qed
next
  assume "\<forall>x \<in> set rs. \<exists>s. textblob_polarity L x = Inr s"
  then show "\<exists>sp. textblob_sentiment_polarity L rs = Inr sp"
    unfolding textblob_sentiment_polarity_def by (intro comprehension_total) simp
next
  assume "\<forall>x \<in> set rs. \<exists>s. afinn_score L x = Inr s"
  then show "\<exists>sa. afinn_sentiment_polarity L rs = Inr sa"
    unfolding afinn_sentiment_polarity_def by (intro comprehension_total) simp
next
  assume "\<forall>x \<in> set rs. \<exists>x1 x2 x3 sc c.
        strip_html_tags L x = Inr x1 \<and> remove_accented_chars L x1 = Inr x2 \<and>
        expand_contractions L x2 = Inr x3 \<and> polarity_scores L x3 = Inr sc \<and>
        sc (lit ''compound'') = Some c"
  then show "\<exists>ps. vader_predicted_sentiments L rs out = (Inr ps, out)"
    by (intro vader_predicted_total) simp
qed

theorem labels_binary_witness:
  "textblob_sentiment_polarity demo_library [lit ''good'', lit ''bad''] =
     Inr [Fin 0.7, Fin (- 0.7)] \<and>
   length (textblob_predicted_sentiments [Fin 0.7, Fin (- 0.7)]) = 2 \<and>
   set (textblob_predicted_sentiments [Fin 0.7, Fin (- 0.7)]) \<subseteq>
     {lit ''positive'', lit ''negative''} \<and>
   afinn_sentiment_polarity demo_library [lit ''good'', lit ''bad''] = Inr [Fin 7, Fin (- 7)] \<and>
   length (afinn_predicted_sentiments [Fin 7, Fin (- 7)]) = 2 \<and>
   analyze_sentiment_vader_lexicon demo_library (lit ''<b>good</b>'') (Fin 0.4) True [] =
     (Inr (lit ''positive''), [lit ''positive'']) \<and>
   lit ''positive'' \<in> {lit ''positive'', lit ''negative''} \<and>
   vader_predicted_sentiments demo_library [lit ''good'', lit ''bad''] [] =
     (Inr [lit ''positive'', lit ''negative''], []) \<and>
   set [lit ''positive'', lit ''negative''] \<subseteq> {lit ''positive'', lit ''negative''}"
proof -
  have h1: "textblob_sentiment_polarity demo_library [lit ''good'', lit ''bad''] =
      Inr [Fin 0.7, Fin (- 0.7)]"
    by (simp add: demo_eval)
  have h2: "afinn_sentiment_polarity demo_library [lit ''good'', lit ''bad''] =
      Inr [Fin 7, Fin (- 7)]"
    by (simp add: demo_eval)
  have h3: "analyze_sentiment_vader_lexicon demo_library (lit ''<b>good</b>'') (Fin 0.4) True [] =
      (Inr (lit ''positive''), [lit ''positive''])"
    by (simp add: demo_analyze_good_verbose print1_def)
  have h4: "vader_predicted_sentiments demo_library [lit ''good'', lit ''bad''] [] =
      (Inr [lit ''positive'', lit ''negative''], [])"
    by (simp add: demo_eval)
  have h5: "\<forall>x \<in> set [lit ''good'', lit ''bad'']. \<exists>s. textblob_polarity demo_library x = Inr s"
    "\<forall>x \<in> set [lit ''good'', lit ''bad'']. \<exists>s. afinn_score demo_library x = Inr s"
    by (simp_all add: demo_fields)
  have h6: "\<forall>x \<in> set [lit ''good'', lit ''bad'']. \<exists>x1 x2 x3 sc c.
      strip_html_tags demo_library x = Inr x1 \<and> remove_accented_chars demo_library x1 = Inr x2 \<and>
      expand_contractions demo_library x2 = Inr x3 \<and> polarity_scores demo_library x3 = Inr sc \<and>
      sc (lit ''compound'') = Some c"
    by (simp add: demo_eval)
  from labels_binary[where L = demo_library and rs = "[lit ''good'', lit ''bad'']"
      and sp = "[Fin 0.7, Fin (- 0.7)]" and sa = "[Fin 7, Fin (- 7)]"
      and r = "lit ''<b>good</b>''" and th = "Fin 0.4" and v = True and out = "[]"
      and lab = "lit ''positive''" and out' = "[lit ''positive'']"
      and ps = "[lit ''positive'', lit ''negative'']"]
    labels_binary[where L = demo_library and rs = "[lit ''good'', lit ''bad'']"
      and out = "[]" and out' = "[]" and ps = "[lit ''positive'', lit ''negative'']"]
    h1 h2 h3 h4 h5 h6
  show ?thesis by simp
qed

subsection \<open>Each review is scored on its own\<close>

text \<open>
  Claim C8. Two lists of reviews of the same length that agree at index \<open>i\<close> get the same
  predicted label at index \<open>i\<close> from every pipeline, whatever had been printed before
  either run, and the list of predictions is as long as the list of reviews.
\<close>

theorem independent_scoring:
  "(textblob_sentiment_polarity L rs = Inr sp \<and> textblob_sentiment_polarity L rs' = Inr sp' \<and>
    length rs = length rs' \<and> i < length rs \<and> rs ! i = rs' ! i \<longrightarrow>
      textblob_predicted_sentiments sp ! i = textblob_predicted_sentiments sp' ! i \<and>
      length (textblob_predicted_sentiments sp) = length rs) \<and>
   (afinn_sentiment_polarity L rs = Inr sa \<and> afinn_sentiment_polarity L rs' = Inr sa' \<and>
    length rs = length rs' \<and> i < length rs \<and> rs ! i = rs' ! i \<longrightarrow>
      afinn_predicted_sentiments sa ! i = afinn_predicted_sentiments sa' ! i \<and>
      length (afinn_predicted_sentiments sa) = length rs) \<and>
   (vader_predicted_sentiments L rs out = (Inr ps, out1) \<and>
    vader_predicted_sentiments L rs' out' = (Inr ps', out1') \<and>
    length rs = length rs' \<and> i < length rs \<and> rs ! i = rs' ! i \<longrightarrow>
      ps ! i = ps' ! i \<and> length ps = length rs)"
proof (intro conjI impI)
  assume a: "textblob_sentiment_polarity L rs = Inr sp \<and> textblob_sentiment_polarity L rs' = Inr sp' \<and>
    length rs = length rs' \<and> i < length rs \<and> rs ! i = rs' ! i"
  then have c: "comprehension (textblob_polarity L) rs = Inr sp"
    and c': "comprehension (textblob_polarity L) rs' = Inr sp'"
    by (simp_all add: textblob_sentiment_polarity_def)
  from a have i: "i < length rs" "i < length rs'" by simp_all
  from comprehension_nth[OF c i(1)] comprehension_nth[OF c' i(2)] a
  have "sp ! i = sp' ! i" by simp
  moreover from comprehension_length[OF c] comprehension_length[OF c'] i
  have "i < length sp" "i < length sp'" by simp_all
  ultimately show "textblob_predicted_sentiments sp ! i = textblob_predicted_sentiments sp' ! i"
    by (simp add: textblob_predicted_sentiments_def)
  show "length (textblob_predicted_sentiments sp) = length rs"
    using comprehension_length[OF c] by (simp add: textblob_predicted_sentiments_def)
next
  assume a: "afinn_sentiment_polarity L rs = Inr sa \<and> afinn_sentiment_polarity L rs' = Inr sa' \<and>
    length rs = length rs' \<and> i < length rs \<and> rs ! i = rs' ! i"
  then have c: "comprehension (afinn_score L) rs = Inr sa"
    and c': "comprehension (afinn_score L) rs' = Inr sa'"
    by (simp_all add: afinn_sentiment_polarity_def)
  from a have i: "i < length rs" "i < length rs'" by simp_all
  from comprehension_nth[OF c i(1)] comprehension_nth[OF c' i(2)] a
  have "sa ! i = sa' ! i" by simp
  moreover from comprehension_length[OF c] comprehension_length[OF c'] i
  have "i < length sa" "i < length sa'" by simp_all
  ultimately show "afinn_predicted_sentiments sa ! i = afinn_predicted_sentiments sa' ! i"
    by (simp add: afinn_predicted_sentiments_def)
  show "length (afinn_predicted_sentiments sa) = length rs"
    using comprehension_length[OF c] by (simp add: afinn_predicted_sentiments_def)
next
  assume a: "vader_predicted_sentiments L rs out = (Inr ps, out1) \<and>
    vader_predicted_sentiments L rs' out' = (Inr ps', out1') \<and>
    length rs = length rs' \<and> i < length rs \<and> rs ! i = rs' ! i"
  then have c: "comprehension (\<lambda>r. fst (analyze_sentiment_vader_lexicon L r (Fin 0.4) False [])) rs = Inr ps"
    and c': "comprehension (\<lambda>r. fst (analyze_sentiment_vader_lexicon L r (Fin 0.4) False [])) rs' = Inr ps'"
    by (simp_all add: vader_predicted_comprehension)
  from a have i: "i < length rs" "i < length rs'" by simp_all
  from comprehension_nth[OF c i(1)] comprehension_nth[OF c' i(2)] a
  show "ps ! i = ps' ! i" by simp
  show "length ps = length rs"
    using comprehension_length[OF c] .
qed

theorem independent_scoring_witness:
  "textblob_sentiment_polarity demo_library [lit ''good'', lit ''bad''] =
     Inr [Fin 0.7, Fin (- 0.7)] \<and>
   textblob_sentiment_polarity demo_library [lit ''good'', lit ''fine''] =
     Inr [Fin 0.7, Fin 0.25] \<and>
   textblob_predicted_sentiments [Fin 0.7, Fin (- 0.7)] ! 0 =
     textblob_predicted_sentiments [Fin 0.7, Fin 0.25] ! 0 \<and>
   length (textblob_predicted_sentiments [Fin 0.7, Fin (- 0.7)]) = 2 \<and>
   afinn_predicted_sentiments [Fin 7, Fin (- 7)] ! 0 =
     afinn_predicted_sentiments [Fin 7, Fin 2.5] ! 0 \<and>
   vader_predicted_sentiments demo_library [lit ''good'', lit ''bad''] [] =
     (Inr [lit ''positive'', lit ''negative''], []) \<and>
   vader_predicted_sentiments demo_library [lit ''good'', lit ''fine''] [lit ''printed''] =
     (Inr [lit ''positive'', lit ''negative''], [lit ''printed''])"
proof -
  have h1: "textblob_sentiment_polarity demo_library [lit ''good'', lit ''bad''] =
        Inr [Fin 0.7, Fin (- 0.7)] \<and>
      textblob_sentiment_polarity demo_library [lit ''good'', lit ''fine''] =
        Inr [Fin 0.7, Fin 0.25] \<and>
      length [lit ''good'', lit ''bad''] = length [lit ''good'', lit ''fine''] \<and>
      0 < length [lit ''good'', lit ''bad''] \<and>
      [lit ''good'', lit ''bad''] ! 0 = [lit ''good'', lit ''fine''] ! 0"
    by (simp add: demo_eval)
  have h2: "afinn_sentiment_polarity demo_library [lit ''good'', lit ''bad''] =
        Inr [Fin 7, Fin (- 7)] \<and>
      afinn_sentiment_polarity demo_library [lit ''good'', lit ''fine''] =
        Inr [Fin 7, Fin 2.5]"
    by (simp add: demo_eval)
  have h3: "vader_predicted_sentiments demo_library [lit ''good'', lit ''bad''] [] =
        (Inr [lit ''positive'', lit ''negative''], []) \<and>
      vader_predicted_sentiments demo_library [lit ''good'', lit ''fine''] [lit ''printed''] =
        (Inr [lit ''positive'', lit ''negative''], [lit ''printed''])"
    by (simp add: demo_eval)
  from independent_scoring[where L = demo_library and rs = "[lit ''good'', lit ''bad'']"
      and rs' = "[lit ''good'', lit ''fine'']" and i = 0
      and sp = "[Fin 0.7, Fin (- 0.7)]" and sp' = "[Fin 0.7, Fin 0.25]"
      and sa = "[Fin 7, Fin (- 7)]" and sa' = "[Fin 7, Fin 2.5]"
      and out = "[]" and ps = "[lit ''positive'', lit ''negative'']" and ?out1.0 = "[]"
      and out' = "[lit ''printed'']" and ps' = "[lit ''positive'', lit ''negative'']"
      and out1' = "[lit ''printed'']"]
    h1 h2 h3
  show ?thesis by simp
qed

subsection \<open>Only the VADER pipeline preprocesses\<close>

text \<open>
  Claim C9. Whenever the VADER wrapper returns a label, the HTML parser was run on the
  review, its text had its line breaks collapsed, that text was NFKD-normalised and cut
  down to ASCII, the contractions of the result were expanded, the VADER scorer was run on
  the text so obtained, and the label is the threshold test on the compound score it gave;
  conversely, when these four library calls return and the compound score is present,
  the wrapper returns that label. Whenever the TextBlob or the AFINN comprehension
  returns, its \<open>i\<close>-th score is what the scorer returns on the \<open>i\<close>-th review itself, markup
  included. The VADER wrapper consults the VADER scorer on the preprocessed text only,
  the other two pipelines consult their scorers on the reviews only, and they do not
  depend on the three preprocessing libraries at all.
\<close>

theorem vader_only_preprocesses:
  "(analyze_sentiment_vader_lexicon L r th v out = (Inr lab, out') \<longrightarrow>
      (\<exists>t1 t2 t3 sc c.
         soup_get_text L r = Inr t1 \<and>
         strip_html_tags L r = Inr (re_sub_breaks False t1) \<and>
         normalize_nfkd L (re_sub_breaks False t1) = Inr t2 \<and>
         remove_accented_chars L (re_sub_breaks False t1) = Inr (filter (\<lambda>c. c < 128) t2) \<and>
         contractions_fix L (filter (\<lambda>c. c < 128) t2) = Inr t3 \<and>
         expand_contractions L (filter (\<lambda>c. c < 128) t2) = Inr t3 \<and>
         polarity_scores L t3 = Inr sc \<and> sc (lit ''compound'') = Some c \<and>
         lab = (if float_ge c th then lit ''positive'' else lit ''negative''))) \<and>
   (soup_get_text L r = Inr t1 \<and> normalize_nfkd L (re_sub_breaks False t1) = Inr t2 \<and>
    contractions_fix L (filter (\<lambda>c. c < 128) t2) = Inr t3 \<and>
    polarity_scores L t3 = Inr sc \<and> sc (lit ''compound'') = Some c \<longrightarrow>
      analyze_sentiment_vader_lexicon L r th False out =
        (Inr (if float_ge c th then lit ''positive'' else lit ''negative''), out)) \<and>
   (textblob_sentiment_polarity L rs = Inr sp \<longrightarrow>
      length sp = length rs \<and>
      (\<forall>i < length rs. textblob_polarity L (rs ! i) = Inr (sp ! i))) \<and>
   (afinn_sentiment_polarity L rs = Inr sa \<longrightarrow>
      length sa = length rs \<and>
      (\<forall>i < length rs. afinn_score L (rs ! i) = Inr (sa ! i))) \<and>
   (strip_html_tags L r = Inr r1 \<and> remove_accented_chars L r1 = Inr r2 \<and>
    expand_contractions L r2 = Inr r3 \<and> f r3 = polarity_scores L r3 \<longrightarrow>
      analyze_sentiment_vader_lexicon (L\<lparr>polarity_scores := f\<rparr>) r th v out =
      analyze_sentiment_vader_lexicon L r th v out) \<and>
   ((\<forall>x \<in> set rs. g x = textblob_polarity L x) \<longrightarrow>
      textblob_sentiment_polarity (L\<lparr>textblob_polarity := g\<rparr>) rs =
      textblob_sentiment_polarity L rs) \<and>
   ((\<forall>x \<in> set rs. h x = afinn_score L x) \<longrightarrow>
      afinn_sentiment_polarity (L\<lparr>afinn_score := h\<rparr>) rs = afinn_sentiment_polarity L rs) \<and>
   textblob_sentiment_polarity
     (L\<lparr>soup_get_text := p1, normalize_nfkd := p2, contractions_fix := p3\<rparr>) rs =
     textblob_sentiment_polarity L rs \<and>
   afinn_sentiment_polarity
     (L\<lparr>soup_get_text := p1, normalize_nfkd := p2, contractions_fix := p3\<rparr>) rs =
     afinn_sentiment_polarity L rs"
proof (intro conjI impI)
  assume "analyze_sentiment_vader_lexicon L r th v out = (Inr lab, out')"
  then have "fst (analyze_sentiment_vader_lexicon L r th v out) = Inr lab" by simp
  from analyze_Inr_chain[OF this] obtain x1 x2 x3 sc c where
    c: "strip_html_tags L r = Inr x1" "remove_accented_chars L x1 = Inr x2"
      "expand_contractions L x2 = Inr x3" "polarity_scores L x3 = Inr sc"
      "sc (lit ''compound'') = Some c"
      "lab = (if float_ge c th then lit ''positive'' else lit ''negative'')"
    by blast
  from c(1) obtain t1 where t1: "soup_get_text L r = Inr t1" "x1 = re_sub_breaks False t1"
    by (auto simp add: strip_html_tags_Inr)
  from c(2) obtain t2 where t2: "normalize_nfkd L x1 = Inr t2" "x2 = filter (\<lambda>c. c < 128) t2"
    by (auto simp add: remove_accented_chars_Inr)
  from c(3) have t3: "contractions_fix L x2 = Inr x3"
    by (simp add: expand_contractions_def)
  from c t1 t2 t3 show "\<exists>t1 t2 t3 sc c.
         soup_get_text L r = Inr t1 \<and>
         strip_html_tags L r = Inr (re_sub_breaks False t1) \<and>
         normalize_nfkd L (re_sub_breaks False t1) = Inr t2 \<and>
         remove_accented_chars L (re_sub_breaks False t1) = Inr (filter (\<lambda>c. c < 128) t2) \<and>
         contractions_fix L (filter (\<lambda>c. c < 128) t2) = Inr t3 \<and>
         expand_contractions L (filter (\<lambda>c. c < 128) t2) = Inr t3 \<and>
         polarity_scores L t3 = Inr sc \<and> sc (lit ''compound'') = Some c \<and>
         lab = (if float_ge c th then lit ''positive'' else lit ''negative'')"
    by blast
next
  assume a: "soup_get_text L r = Inr t1 \<and> normalize_nfkd L (re_sub_breaks False t1) = Inr t2 \<and>
    contractions_fix L (filter (\<lambda>c. c < 128) t2) = Inr t3 \<and>
    polarity_scores L t3 = Inr sc \<and> sc (lit ''compound'') = Some c"
  then have "strip_html_tags L r = Inr (re_sub_breaks False t1)"
    "remove_accented_chars L (re_sub_breaks False t1) = Inr (filter (\<lambda>c. c < 128) t2)"
    "expand_contractions L (filter (\<lambda>c. c < 128) t2) = Inr t3"
    "polarity_scores L t3 = Inr sc" "sc (lit ''compound'') = Some c"
    by (simp_all add: strip_html_tags_Inr remove_accented_chars_Inr expand_contractions_def)
  then show "analyze_sentiment_vader_lexicon L r th False out =
        (Inr (if float_ge c th then lit ''positive'' else lit ''negative''), out)"
    by (rule analyze_label)
next
  assume a: "textblob_sentiment_polarity L rs = Inr sp"
  then have c: "comprehension (textblob_polarity L) rs = Inr sp"
    by (simp add: textblob_sentiment_polarity_def)
  then show "length sp = length rs" by (rule comprehension_length)
  from c show "\<forall>i < length rs. textblob_polarity L (rs ! i) = Inr (sp ! i)"
    by (simp add: comprehension_nth)
next
  assume a: "afinn_sentiment_polarity L rs = Inr sa"
  then have c: "comprehension (afinn_score L) rs = Inr sa"
    by (simp add: afinn_sentiment_polarity_def)
  then show "length sa = length rs" by (rule comprehension_length)
  from c show "\<forall>i < length rs. afinn_score L (rs ! i) = Inr (sa ! i)"
    by (simp add: comprehension_nth)
next
  assume "strip_html_tags L r = Inr r1 \<and> remove_accented_chars L r1 = Inr r2 \<and>
    expand_contractions L r2 = Inr r3 \<and> f r3 = polarity_scores L r3"
  then show "analyze_sentiment_vader_lexicon (L\<lparr>polarity_scores := f\<rparr>) r th v out =
      analyze_sentiment_vader_lexicon L r th v out"
    by (simp add: analyze_scorer_at_preprocessed)
next
  assume "\<forall>x \<in> set rs. g x = textblob_polarity L x"
  then show "textblob_sentiment_polarity (L\<lparr>textblob_polarity := g\<rparr>) rs =
      textblob_sentiment_polarity L rs"
    unfolding textblob_sentiment_polarity_def
    by (intro comprehension_cong) simp
next
  assume "\<forall>x \<in> set rs. h x = afinn_score L x"
  then show "afinn_sentiment_polarity (L\<lparr>afinn_score := h\<rparr>) rs = afinn_sentiment_polarity L rs"
    unfolding afinn_sentiment_polarity_def
    by (intro comprehension_cong) simp
next
  show "textblob_sentiment_polarity
     (L\<lparr>soup_get_text := p1, normalize_nfkd := p2, contractions_fix := p3\<rparr>) rs =
     textblob_sentiment_polarity L rs"
    by (simp add: textblob_sentiment_polarity_def)
  show "afinn_sentiment_polarity
     (L\<lparr>soup_get_text := p1, normalize_nfkd := p2, contractions_fix := p3\<rparr>) rs =
     afinn_sentiment_polarity L rs"
    by (simp add: afinn_sentiment_polarity_def)
qed

theorem vader_only_preprocesses_witness:
  "analyze_sentiment_vader_lexicon demo_library (lit ''<b>good</b>'') (Fin 0.4) False [] =
     (Inr (lit ''positive''), []) \<and>
   soup_get_text demo_library (lit ''<b>good</b>'') = Inr (lit ''good'') \<and>
   strip_html_tags demo_library (lit ''<b>good</b>'') = Inr (lit ''good'') \<and>
   polarity_scores demo_library (lit ''good'') = Inr (demo_polarity_scores (lit ''good'')) \<and>
   demo_polarity_scores (lit ''good'') (lit ''compound'') = Some (Fin 0.7) \<and>
   textblob_sentiment_polarity demo_library [lit ''<b>good</b>''] = Inr [Fin 0] \<and>
   textblob_polarity demo_library (lit ''<b>good</b>'') = Inr (Fin 0) \<and>
   textblob_polarity demo_library (lit ''good'') = Inr (Fin 0.7) \<and>
   afinn_sentiment_polarity demo_library [lit ''<b>good</b>''] = Inr [Fin 0] \<and>
   afinn_score demo_library (lit ''<b>good</b>'') = Inr (Fin 0) \<and>
   afinn_score demo_library (lit ''good'') = Inr (Fin 7) \<and>
   analyze_sentiment_vader_lexicon
     (demo_library\<lparr>polarity_scores := (\<lambda>t. Inr (demo_polarity_scores (lit ''good'')))\<rparr>)
     (lit ''<b>good</b>'') (Fin 0.4) False [] = (Inr (lit ''positive''), []) \<and>
   textblob_sentiment_polarity (demo_library\<lparr>textblob_polarity := (\<lambda>t. Inr (Fin 0))\<rparr>)
     [lit ''<b>good</b>''] = Inr [Fin 0] \<and>
   afinn_sentiment_polarity (demo_library\<lparr>afinn_score := (\<lambda>t. Inr (Fin 0))\<rparr>)
     [lit ''<b>good</b>''] = Inr [Fin 0] \<and>
   textblob_sentiment_polarity
     (demo_library\<lparr>soup_get_text := (\<lambda>t. Inl failure), normalize_nfkd := (\<lambda>t. Inl failure),
        contractions_fix := (\<lambda>t. Inl failure)\<rparr>) [lit ''<b>good</b>''] = Inr [Fin 0] \<and>
   afinn_sentiment_polarity
     (demo_library\<lparr>soup_get_text := (\<lambda>t. Inl failure), normalize_nfkd := (\<lambda>t. Inl failure),
        contractions_fix := (\<lambda>t. Inl failure)\<rparr>) [lit ''<b>good</b>''] = Inr [Fin 0]"
proof -
  let ?r = "lit ''<b>good</b>''"
  let ?g = "lit ''good''"
  note inst = vader_only_preprocesses[where L = demo_library and r = ?r
      and th = "Fin 0.4" and v = False and out = "[]" and out' = "[]"
      and lab = "lit ''positive''" and ?t1.0 = ?g and ?t2.0 = ?g and ?t3.0 = ?g
      and sc = "demo_polarity_scores ?g" and c = "Fin 0.7"
      and rs = "[?r]" and sp = "[Fin 0]" and sa = "[Fin 0]"
      and ?r1.0 = ?g and ?r2.0 = ?g and ?r3.0 = ?g
      and f = "\<lambda>t. Inr (demo_polarity_scores ?g)"
      and g = "\<lambda>t. Inr (Fin 0)" and h = "\<lambda>t. Inr (Fin 0)"
      and ?p1.0 = "\<lambda>t. Inl failure" and ?p2.0 = "\<lambda>t. Inl failure"
      and ?p3.0 = "\<lambda>t. Inl failure"]
  have e: "analyze_sentiment_vader_lexicon demo_library ?r (Fin 0.4) False [] =
      (Inr (lit ''positive''), [])"
    by (simp add: demo_analyze_good)
  have soup: "soup_get_text demo_library ?r = Inr ?g"
    by (simp add: demo_library_def lit_def)
  have brk: "re_sub_breaks False ?g = ?g"
    by (simp add: lit_def is_break_def)
  have asc: "filter (\<lambda>c. c < 128) ?g = ?g"
    by (simp add: lit_def)
  have lib: "normalize_nfkd demo_library ?g = Inr ?g" "contractions_fix demo_library ?g = Inr ?g"
    by (simp_all add: demo_library_def)
  have h2: "soup_get_text demo_library ?r = Inr ?g \<and>
      normalize_nfkd demo_library (re_sub_breaks False ?g) = Inr ?g \<and>
      contractions_fix demo_library (filter (\<lambda>c. c < 128) ?g) = Inr ?g \<and>
      polarity_scores demo_library ?g = Inr (demo_polarity_scores ?g) \<and>
      demo_polarity_scores ?g (lit ''compound'') = Some (Fin 0.7)"
    by (simp add: soup brk asc lib demo_scores_good demo_compound_good)
  have t: "textblob_sentiment_polarity demo_library [?r] = Inr [Fin 0]"
    "afinn_sentiment_polarity demo_library [?r] = Inr [Fin 0]"
    by (simp_all add: textblob_sentiment_polarity_def afinn_sentiment_polarity_def
        demo_textblob_markup demo_afinn_markup)
  have raw: "textblob_polarity demo_library ?g = Inr (Fin 0.7)"
    "afinn_score demo_library ?g = Inr (Fin 7)"
    by (simp_all add: demo_fields demo_score_def)
  have h5: "strip_html_tags demo_library ?r = Inr ?g \<and>
      remove_accented_chars demo_library ?g = Inr ?g \<and>
      expand_contractions demo_library ?g = Inr ?g \<and>
      (\<lambda>t. Inr (demo_polarity_scores ?g)) ?g = polarity_scores demo_library ?g"
    by (simp add: demo_strip_good demo_remove_good demo_expand demo_scores_good)
  have h6: "\<forall>x \<in> set [?r]. (\<lambda>t. Inr (Fin 0)) x = textblob_polarity demo_library x"
    by (simp add: demo_textblob_markup)
  have h7: "\<forall>x \<in> set [?r]. (\<lambda>t. Inr (Fin 0)) x = afinn_score demo_library x"
    by (simp add: demo_afinn_markup)
  note c1 = inst[THEN conjunct1, THEN mp, OF e]
  note c2 = inst[THEN conjunct2, THEN conjunct1, THEN mp, OF h2]
  note c3 = inst[THEN conjunct2, THEN conjunct2, THEN conjunct1, THEN mp, OF t(1)]
  note c4 = inst[THEN conjunct2, THEN conjunct2, THEN conjunct2, THEN conjunct1, THEN mp,
      OF t(2)]
  note c5 = inst[THEN conjunct2, THEN conjunct2, THEN conjunct2, THEN conjunct2,
      THEN conjunct1, THEN mp, OF h5]
  note c6 = inst[THEN conjunct2, THEN conjunct2, THEN conjunct2, THEN conjunct2,
      THEN conjunct2, THEN conjunct1, THEN mp, OF h6]
  note c7 = inst[THEN conjunct2, THEN conjunct2, THEN conjunct2, THEN conjunct2,
      THEN conjunct2, THEN conjunct2, THEN conjunct1, THEN mp, OF h7]
  note c8 = inst[THEN conjunct2, THEN conjunct2, THEN conjunct2, THEN conjunct2,
      THEN conjunct2, THEN conjunct2, THEN conjunct2]
  from c1 obtain t1 where k: "soup_get_text demo_library ?r = Inr t1"
    "strip_html_tags demo_library ?r = Inr (re_sub_breaks False t1)"
    by blast
  from k(1) soup have "t1 = ?g" by simp
  with k(2) brk have "strip_html_tags demo_library ?r = Inr ?g" by simp
  with soup have 1: "soup_get_text demo_library ?r = Inr ?g \<and>
      strip_html_tags demo_library ?r = Inr ?g \<and>
      polarity_scores demo_library ?g = Inr (demo_polarity_scores ?g) \<and>
      demo_polarity_scores ?g (lit ''compound'') = Some (Fin 0.7)"
    by (simp add: demo_scores_good demo_compound_good)
  from c2 have 2: "analyze_sentiment_vader_lexicon demo_library ?r (Fin 0.4) False [] =
      (Inr (lit ''positive''), [])"
    by simp
  from c3 have 3: "textblob_polarity demo_library ?r = Inr (Fin 0)" by simp
  from c4 have 4: "afinn_score demo_library ?r = Inr (Fin 0)" by simp
  from c5 e have 5: "analyze_sentiment_vader_lexicon
     (demo_library\<lparr>polarity_scores := (\<lambda>t. Inr (demo_polarity_scores ?g))\<rparr>)
     ?r (Fin 0.4) False [] = (Inr (lit ''positive''), [])"
    by simp
  from 1 2 3 4 5 c6 c7 c8 t raw show ?thesis
    by simp
qed

subsection \<open>The default threshold and the threshold of the call sites\<close>

text \<open>
  Claim C10. The default threshold of \<open>analyze_sentiment_vader_lexicon\<close> is 0.1, and both
  call sites of the notebook pass 0.4. For a review with compound score \<open>c\<close>, the
  evaluation comprehension, when it returns, holds the label of the test \<open>c >= 0.4\<close> at
  the position of the review, and the sample loop, when it returns, has printed the
  frame built from the label of the test \<open>c >= 0.4\<close>, while a call with the default
  arguments returns the label of the test \<open>c >= 0.1\<close>. So a review whose compound score
  lies in the interval from 0.1 (included) to 0.4 (excluded) is labelled \<open>positive\<close> by a
  call with the default arguments and \<open>negative\<close> by the evaluation, and the sample loop
  prints the frame of the label \<open>negative\<close> for it.
\<close>

theorem default_threshold_differs:
  "default_threshold = Fin 0.1 \<and>
   (strip_html_tags L r = Inr r1 \<and> remove_accented_chars L r1 = Inr r2 \<and>
    expand_contractions L r2 = Inr r3 \<and> polarity_scores L r3 = Inr sc \<and>
    sc (lit ''compound'') = Some (Fin x) \<and> 0.1 \<le> x \<and> x < 0.4 \<longrightarrow>
      analyze_sentiment_vader_lexicon_default L r out = (Inr (lit ''positive''), out) \<and>
      analyze_sentiment_vader_lexicon L r (Fin 0.4) False out = (Inr (lit ''negative''), out) \<and>
      (\<forall>rs ps out' j. vader_predicted_sentiments L rs out = (Inr ps, out') \<and>
         j < length rs \<and> rs ! j = r \<longrightarrow> ps ! j = lit ''negative'') \<and>
      (\<forall>lab out'. analyze_sentiment_vader_lexicon L r (Fin 0.4) True out = (Inr lab, out')
         \<longrightarrow> lab = lit ''negative'') \<and>
      (\<forall>pairs s u out'. vader_samples L pairs out = (Inr u, out') \<and> (r, s) \<in> set pairs \<longrightarrow>
         (\<exists>p n q frame. sc (lit ''pos'') = Some p \<and> sc (lit ''neg'') = Some n \<and>
            sc (lit ''neu'') = Some q \<and>
            sentiment_frame L (lit ''negative'') (Fin x) p n q = Inr frame \<and>
            frame \<in> set out'))) \<and>
   (strip_html_tags L r = Inr r1 \<and> remove_accented_chars L r1 = Inr r2 \<and>
    expand_contractions L r2 = Inr r3 \<and> polarity_scores L r3 = Inr sc \<and>
    sc (lit ''compound'') = Some c \<longrightarrow>
      analyze_sentiment_vader_lexicon_default L r out =
        (Inr (if float_ge c (Fin 0.1) then lit ''positive'' else lit ''negative''), out) \<and>
      (\<forall>rs ps out' j. vader_predicted_sentiments L rs out = (Inr ps, out') \<and>
         j < length rs \<and> rs ! j = r \<longrightarrow>
         ps ! j = (if float_ge c (Fin 0.4) then lit ''positive'' else lit ''negative'')) \<and>
      (\<forall>pairs s u out'. vader_samples L pairs out = (Inr u, out') \<and> (r, s) \<in> set pairs \<longrightarrow>
         (\<exists>p n q frame. sc (lit ''pos'') = Some p \<and> sc (lit ''neg'') = Some n \<and>
            sc (lit ''neu'') = Some q \<and>
            sentiment_frame L
              (if float_ge c (Fin 0.4) then lit ''positive'' else lit ''negative'')
              c p n q = Inr frame \<and>
            frame \<in> set out')))"
  (is "?default \<and> (?between \<longrightarrow> ?differ) \<and> (?chain \<longrightarrow> ?sites)")
proof (intro conjI)
  show ?default by (simp add: default_threshold_def)
next
  show "?chain \<longrightarrow> ?sites"
  proof
    assume a: ?chain
    then have ch: "strip_html_tags L r = Inr r1" "remove_accented_chars L r1 = Inr r2"
      "expand_contractions L r2 = Inr r3" "polarity_scores L r3 = Inr sc"
      "sc (lit ''compound'') = Some c"
      by simp_all
    from vader_call_sites[OF ch] show ?sites by blast
  qed
next
  show "?between \<longrightarrow> ?differ"
  proof
    assume a: ?between
    then have ch: "strip_html_tags L r = Inr r1" "remove_accented_chars L r1 = Inr r2"
        "expand_contractions L r2 = Inr r3" "polarity_scores L r3 = Inr sc"
        "sc (lit ''compound'') = Some (Fin x)"
      and x: "0.1 \<le> x" "x < 0.4"
      by simp_all
    from x have ge: "float_ge (Fin x) (Fin 0.1)" "\<not> float_ge (Fin x) (Fin 0.4)"
      by simp_all
    note sites = vader_call_sites[OF ch]
    have verbose: "lab = lit ''negative''"
      if b: "analyze_sentiment_vader_lexicon L r (Fin 0.4) True out = (Inr lab, out')"
      for lab out'
      using analyze_verbose_label[OF ch b] ge by simp
    have quiet: "analyze_sentiment_vader_lexicon L r (Fin 0.4) False out =
        (Inr (lit ''negative''), out)"
      using ge by (simp add: analyze_label[OF ch])
    have d: "analyze_sentiment_vader_lexicon_default L r out = (Inr (lit ''positive''), out)"
      using sites(1)[of out] ge by simp
    have e: "\<forall>rs ps out' j. vader_predicted_sentiments L rs out = (Inr ps, out') \<and>
         j < length rs \<and> rs ! j = r \<longrightarrow> ps ! j = lit ''negative''"
      using sites(2) ge by auto
    have s: "\<forall>pairs s u out'. vader_samples L pairs out = (Inr u, out') \<and>
         (r, s) \<in> set pairs \<longrightarrow>
         (\<exists>p n q frame. sc (lit ''pos'') = Some p \<and> sc (lit ''neg'') = Some n \<and>
            sc (lit ''neu'') = Some q \<and>
            sentiment_frame L (lit ''negative'') (Fin x) p n q = Inr frame \<and>
            frame \<in> set out')"
    proof (intro allI impI, elim conjE)
      fix pairs s u out'
      assume "vader_samples L pairs out = (Inr u, out')" "(r, s) \<in> set pairs"
      from sites(3)[OF this] ge
      show "\<exists>p n q frame. sc (lit ''pos'') = Some p \<and> sc (lit ''neg'') = Some n \<and>
            sc (lit ''neu'') = Some q \<and>
            sentiment_frame L (lit ''negative'') (Fin x) p n q = Inr frame \<and>
            frame \<in> set out'"
        by simp
    qed
    from d quiet e verbose s show ?differ by blast
  qed
qed

theorem default_threshold_differs_witness:
  "default_threshold = Fin 0.1 \<and>
   demo_polarity_scores (lit ''fine'') (lit ''compound'') = Some (Fin 0.25) \<and>
   (0.1::real) \<le> 0.25 \<and> (0.25::real) < 0.4 \<and>
   analyze_sentiment_vader_lexicon_default demo_library (lit ''fine'') [] =
     (Inr (lit ''positive''), []) \<and>
   analyze_sentiment_vader_lexicon demo_library (lit ''fine'') (Fin 0.4) False [] =
     (Inr (lit ''negative''), []) \<and>
   analyze_sentiment_vader_lexicon demo_library (lit ''fine'') (Fin 0.4) True [] =
     (Inr (lit ''negative''), [lit ''negative'']) \<and>
   vader_predicted_sentiments demo_library [lit ''fine''] [] = (Inr [lit ''negative''], []) \<and>
   fst (vader_samples demo_library [(lit ''fine'', lit ''positive'')] []) = Inr () \<and>
   lit ''negative'' \<in>
     set (snd (vader_samples demo_library [(lit ''fine'', lit ''positive'')] [])) \<and>
   lit ''positive'' \<notin>
     set (snd (vader_samples demo_library [(lit ''fine'', lit ''negative'')] []))"
proof -
  let ?r = "lit ''fine''"
  let ?pairs = "[(?r, lit ''positive'')]"
  let ?out' = "snd (vader_samples demo_library ?pairs [])"
  note inst = default_threshold_differs[where L = demo_library and r = ?r
      and ?r1.0 = ?r and ?r2.0 = ?r and ?r3.0 = ?r
      and sc = "demo_polarity_scores ?r" and x = "0.25" and c = "Fin 0.25" and out = "[]"]
  have v: "\<And>th w. analyze_sentiment_vader_lexicon demo_library ?r th True w =
      (Inr (if float_ge (Fin 0.25) th then lit ''positive'' else lit ''negative''),
       w @ [if float_ge (Fin 0.25) th then lit ''positive'' else lit ''negative''])"
    by (simp add: demo_eval)
  have q: "\<And>th. analyze_sentiment_vader_lexicon demo_library ?r th False [] =
      (Inr (if float_ge (Fin 0.25) th then lit ''positive'' else lit ''negative''), [])"
    by (simp add: demo_eval)
  have h: "strip_html_tags demo_library ?r = Inr ?r \<and>
      remove_accented_chars demo_library ?r = Inr ?r \<and>
      expand_contractions demo_library ?r = Inr ?r \<and>
      polarity_scores demo_library ?r = Inr (demo_polarity_scores ?r) \<and>
      demo_polarity_scores ?r (lit ''compound'') = Some (Fin 0.25) \<and>
      (0.1::real) \<le> 0.25 \<and> (0.25::real) < 0.4"
    by (simp add: demo_eval)
  then have h': "strip_html_tags demo_library ?r = Inr ?r \<and>
      remove_accented_chars demo_library ?r = Inr ?r \<and>
      expand_contractions demo_library ?r = Inr ?r \<and>
      polarity_scores demo_library ?r = Inr (demo_polarity_scores ?r) \<and>
      demo_polarity_scores ?r (lit ''compound'') = Some (Fin 0.25)"
    by simp
  have ps: "vader_predicted_sentiments demo_library [?r] [] = (Inr [lit ''negative''], [])"
    by (simp add: q)
  have shown: "fst (vader_samples demo_library ?pairs []) = Inr ()"
    by (simp only: fst_vader_samples) (simp add: v)
  then have run: "vader_samples demo_library ?pairs [] = (Inr (), ?out') \<and>
      (?r, lit ''positive'') \<in> set ?pairs"
    by (simp add: prod_eq_iff)
  have rule: "\<And>cs. length cs = 8 \<Longrightarrow> cs \<noteq> replicate 60 (45::nat)"
    by auto
  have other: "lit ''positive'' \<notin>
      set (snd (vader_samples demo_library [(?r, lit ''negative'')] []))"
    by (simp add: v print1_def print2_def) (simp add: lit_def rule)
  note differ = inst[THEN conjunct2, THEN conjunct1, THEN mp, OF h]
  note sites = inst[THEN conjunct2, THEN conjunct2, THEN mp, OF h']
  from differ[THEN conjunct2, THEN conjunct2, THEN conjunct2, THEN conjunct2,
      THEN spec, THEN spec, THEN spec, THEN spec, THEN mp, OF run]
  have frame: "lit ''negative'' \<in> set ?out'"
    by (elim exE conjE) (simp add: demo_fields)
  from sites[THEN conjunct2, THEN conjunct1, THEN spec, THEN spec, THEN spec, THEN spec,
      of "[?r]" "[lit ''negative'']" "[]" 0] ps
  have nth: "[lit ''negative''] ! 0 =
      (if float_ge (Fin 0.25) (Fin 0.4) then lit ''positive'' else lit ''negative'')"
    by simp
  from differ[THEN conjunct1] differ[THEN conjunct2, THEN conjunct1]
    differ[THEN conjunct2, THEN conjunct2, THEN conjunct2, THEN conjunct1, THEN spec,
      THEN spec, THEN mp, OF v[of "Fin 0.4" "[]"]]
    inst[THEN conjunct1] h v[of "Fin 0.4" "[]"] ps shown frame other nth
  show ?thesis by simp
qed

subsection \<open>The test split\<close>

text \<open>
  Claim C5. The evaluation works on the dataset rows from index 35000 on. First, the
  \<open>i\<close>-th test review is the \<open>review\<close> column at row \<open>35000 + i\<close> and the \<open>i\<close>-th test
  sentiment is the \<open>sentiment\<close> column at the same row. Second, when the notebook runs to
  its end, the three scoring comprehensions went over the \<open>review\<close> column of the loaded
  dataset from row 35000 on, each metrics report was computed by
  \<open>display_model_performance_metrics\<close> from the \<open>sentiment\<close> column from row 35000 on (in
  that order) and the predictions of the pipeline, and the three reports were printed.
  Third, rows before 35000 are never scored: replacing the TextBlob scorer, the AFINN
  scorer, the HTML parser the VADER wrapper starts with and the VADER scorer by functions
  that agree with them on the test reviews (for the VADER scorer, on the preprocessed test
  reviews), and that do anything else elsewhere, leaves the run unchanged, output
  included.
\<close>

theorem test_split:
  "(dataset (lit ''review'') = Some rv \<and> dataset (lit ''sentiment'') = Some sv \<longrightarrow>
      (\<exists>trs tss. test_reviews dataset = Inr trs \<and> test_sentiments dataset = Inr tss \<and>
         length trs = length rv - 35000 \<and> length tss = length sv - 35000 \<and>
         (\<forall>i < length trs. trs ! i = rv ! (35000 + i)) \<and>
         (\<forall>i < length tss. tss ! i = sv ! (35000 + i)))) \<and>
   (notebook L out = (Inr ev, out') \<longrightarrow>
      (\<exists>loaded rvs svs sp1 sp2 ps report1 report2 report3.
         read_csv L (lit ''movie_reviews.csv.bz2'') (lit ''bz2'') = Inr loaded \<and>
         loaded (lit ''review'') = Some rvs \<and> loaded (lit ''sentiment'') = Some svs \<and>
         comprehension (textblob_polarity L) (drop 35000 rvs) = Inr sp1 \<and>
         comprehension (afinn_score L) (drop 35000 rvs) = Inr sp2 \<and>
         comprehension (\<lambda>x. fst (analyze_sentiment_vader_lexicon L x (Fin 0.4) False []))
           (drop 35000 rvs) = Inr ps \<and>
         display_model_performance_metrics L (drop 35000 svs)
           (textblob_predicted_sentiments sp1) [lit ''positive'', lit ''negative''] =
           Inr report1 \<and>
         display_model_performance_metrics L (drop 35000 svs)
           (afinn_predicted_sentiments sp2) [lit ''positive'', lit ''negative''] =
           Inr report2 \<and>
         display_model_performance_metrics L (drop 35000 svs) ps
           [lit ''positive'', lit ''negative''] = Inr report3 \<and>
         {report1, report2, report3} \<subseteq> set out' \<and>
         ev = \<lparr> reviews_scored = drop 35000 rvs, true_sentiments = drop 35000 svs,
                textblob_predicted = textblob_predicted_sentiments sp1,
                afinn_predicted = afinn_predicted_sentiments sp2,
                vader_predicted = ps \<rparr>)) \<and>
   ((\<forall>loaded reviews x.
        read_csv L (lit ''movie_reviews.csv.bz2'') (lit ''bz2'') = Inr loaded \<and>
        test_reviews loaded = Inr reviews \<and> x \<in> set reviews \<longrightarrow>
          f x = textblob_polarity L x \<and> g x = afinn_score L x \<and> h x = soup_get_text L x \<and>
          (\<forall>r1 r2 r3. strip_html_tags L x = Inr r1 \<and> remove_accented_chars L r1 = Inr r2 \<and>
             expand_contractions L r2 = Inr r3 \<longrightarrow> p r3 = polarity_scores L r3)) \<longrightarrow>
      notebook (L\<lparr>textblob_polarity := f, afinn_score := g, soup_get_text := h,
                  polarity_scores := p\<rparr>) out = notebook L out)"
  (is "?slices \<and> ?reports \<and> ?others")
proof (intro conjI)
  show ?slices
    by (simp add: test_reviews_def test_sentiments_def getitem_def)
  show ?reports
    by (intro impI) (rule notebook_reports)
  show ?others
  proof
    let ?M = "L\<lparr>textblob_polarity := f, afinn_score := g, soup_get_text := h\<rparr>"
    assume agree: "\<forall>loaded reviews x.
        read_csv L (lit ''movie_reviews.csv.bz2'') (lit ''bz2'') = Inr loaded \<and>
        test_reviews loaded = Inr reviews \<and> x \<in> set reviews \<longrightarrow>
          f x = textblob_polarity L x \<and> g x = afinn_score L x \<and> h x = soup_get_text L x \<and>
          (\<forall>r1 r2 r3. strip_html_tags L x = Inr r1 \<and> remove_accented_chars L r1 = Inr r2 \<and>
             expand_contractions L r2 = Inr r3 \<longrightarrow> p r3 = polarity_scores L r3)"
    have rm: "\<And>t. remove_accented_chars ?M t = remove_accented_chars L t"
      by (simp add: remove_accented_chars_def)
    have ex: "\<And>t. expand_contractions ?M t = expand_contractions L t"
      by (simp add: expand_contractions_def)
    have "notebook (?M\<lparr>polarity_scores := p\<rparr>) out = notebook ?M out"
    proof (rule notebook_vader_scorer_test_split_only)
      fix loaded reviews x r1 r2 r3
      assume rc: "read_csv ?M (lit ''movie_reviews.csv.bz2'') (lit ''bz2'') = Inr loaded"
        and tr: "test_reviews loaded = Inr reviews" and x: "x \<in> set reviews"
        and s: "strip_html_tags ?M x = Inr r1" and a: "remove_accented_chars ?M r1 = Inr r2"
        and c: "expand_contractions ?M r2 = Inr r3"
      from rc have rc': "read_csv L (lit ''movie_reviews.csv.bz2'') (lit ''bz2'') = Inr loaded"
        by simp
      from agree rc' tr x have hx: "h x = soup_get_text L x"
        and px: "\<And>r1 r2 r3. strip_html_tags L x = Inr r1 \<Longrightarrow> remove_accented_chars L r1 = Inr r2
          \<Longrightarrow> expand_contractions L r2 = Inr r3 \<Longrightarrow> p r3 = polarity_scores L r3"
        by blast+
      from s hx have "strip_html_tags L x = Inr r1"
        by (simp add: strip_html_tags_def)
      moreover from a have "remove_accented_chars L r1 = Inr r2" by (simp add: rm)
      moreover from c have "expand_contractions L r2 = Inr r3" by (simp add: ex)
      ultimately have "p r3 = polarity_scores L r3" by (rule px)
      then show "p r3 = polarity_scores ?M r3" by simp
    qed
    moreover have "notebook ?M out = notebook L out"
    proof (rule notebook_scores_test_split_only)
      fix loaded reviews x
      assume "read_csv L (lit ''movie_reviews.csv.bz2'') (lit ''bz2'') = Inr loaded"
        "test_reviews loaded = Inr reviews" "x \<in> set reviews"
      with agree
      show "f x = textblob_polarity L x \<and> g x = afinn_score L x \<and> h x = soup_get_text L x"
        by blast
    qed
    ultimately show "notebook (L\<lparr>textblob_polarity := f, afinn_score := g, soup_get_text := h,
                  polarity_scores := p\<rparr>) out = notebook L out"
      by simp
  qed
qed

theorem test_split_witness:
  "demo_dataset (lit ''review'') =
     Some (replicate 35000 (lit ''bad'') @ replicate 15000 (lit ''<b>good</b>'')) \<and>
   demo_dataset (lit ''sentiment'') =
     Some (replicate 35000 (lit ''negative'') @ replicate 15000 (lit ''positive'')) \<and>
   test_reviews demo_dataset = Inr (replicate 15000 (lit ''<b>good</b>'')) \<and>
   test_sentiments demo_dataset = Inr (replicate 15000 (lit ''positive'')) \<and>
   fst (notebook demo_library []) =
     Inr \<lparr> reviews_scored = replicate 15000 (lit ''<b>good</b>''),
           true_sentiments = replicate 15000 (lit ''positive''),
           textblob_predicted = replicate 15000 (lit ''negative''),
           afinn_predicted = replicate 15000 (lit ''negative''),
           vader_predicted = replicate 15000 (lit ''positive'') \<rparr> \<and>
   lit ''report'' \<in> set (snd (notebook demo_library [])) \<and>
   textblob_polarity demo_library (lit ''bad'') \<noteq> Inl failure \<and>
   notebook
     (demo_library\<lparr>
        textblob_polarity :=
          (\<lambda>t. if t = lit ''bad'' then Inl failure else textblob_polarity demo_library t),
        afinn_score :=
          (\<lambda>t. if t = lit ''bad'' then Inl failure else afinn_score demo_library t),
        soup_get_text :=
          (\<lambda>t. if t = lit ''bad'' then Inl failure else soup_get_text demo_library t),
        polarity_scores :=
          (\<lambda>t. if t = lit ''good'' then polarity_scores demo_library t else Inl failure)\<rparr>)
     [] = notebook demo_library []"
proof -
  let ?rv = "replicate 35000 (lit ''bad'') @ replicate 15000 (lit ''<b>good</b>'')"
  let ?sv = "replicate 35000 (lit ''negative'') @ replicate 15000 (lit ''positive'')"
  let ?ev = "\<lparr> reviews_scored = replicate 15000 (lit ''<b>good</b>''),
           true_sentiments = replicate 15000 (lit ''positive''),
           textblob_predicted = replicate 15000 (lit ''negative''),
           afinn_predicted = replicate 15000 (lit ''negative''),
           vader_predicted = replicate 15000 (lit ''positive'') \<rparr>"
  let ?f = "\<lambda>t. if t = lit ''bad'' then Inl failure else textblob_polarity demo_library t"
  let ?g = "\<lambda>t. if t = lit ''bad'' then Inl failure else afinn_score demo_library t"
  let ?h = "\<lambda>t. if t = lit ''bad'' then Inl failure else soup_get_text demo_library t"
  let ?p = "\<lambda>t. if t = lit ''good'' then polarity_scores demo_library t else Inl failure"
  note inst = test_split[where dataset = demo_dataset and rv = ?rv and sv = ?sv
      and L = demo_library and out = "[]" and ev = ?ev
      and out' = "snd (notebook demo_library [])" and f = ?f and g = ?g and h = ?h and p = ?p]
  have cols: "demo_dataset (lit ''review'') = Some ?rv \<and>
      demo_dataset (lit ''sentiment'') = Some ?sv"
    by (simp add: demo_dataset_def lit_def)
  have run: "notebook demo_library [] = (Inr ?ev, snd (notebook demo_library []))"
    using demo_notebook by (simp add: prod_eq_iff)
  from inst[THEN conjunct2, THEN conjunct1, THEN mp, OF run]
  have printed: "lit ''report'' \<in> set (snd (notebook demo_library []))"
    by (elim exE conjE) (simp add: demo_fields)
  have other: "lit ''<b>good</b>'' \<noteq> lit ''bad''"
    by (simp add: lit_def)
  have agree: "\<forall>loaded reviews x.
        read_csv demo_library (lit ''movie_reviews.csv.bz2'') (lit ''bz2'') = Inr loaded \<and>
        test_reviews loaded = Inr reviews \<and> x \<in> set reviews \<longrightarrow>
          ?f x = textblob_polarity demo_library x \<and> ?g x = afinn_score demo_library x \<and>
          ?h x = soup_get_text demo_library x \<and>
          (\<forall>r1 r2 r3. strip_html_tags demo_library x = Inr r1 \<and>
             remove_accented_chars demo_library r1 = Inr r2 \<and>
             expand_contractions demo_library r2 = Inr r3 \<longrightarrow>
               ?p r3 = polarity_scores demo_library r3)"
  proof (intro allI impI, elim conjE)
    fix loaded reviews x
    assume "read_csv demo_library (lit ''movie_reviews.csv.bz2'') (lit ''bz2'') = Inr loaded"
    then have l: "loaded = demo_dataset" by (simp add: demo_fields)
    assume "test_reviews loaded = Inr reviews" "x \<in> set reviews"
    with l have x: "x = lit ''<b>good</b>''"
      by (auto simp add: demo_test_reviews)
    show "?f x = textblob_polarity demo_library x \<and> ?g x = afinn_score demo_library x \<and>
          ?h x = soup_get_text demo_library x \<and>
          (\<forall>r1 r2 r3. strip_html_tags demo_library x = Inr r1 \<and>
             remove_accented_chars demo_library r1 = Inr r2 \<and>
             expand_contractions demo_library r2 = Inr r3 \<longrightarrow>
               ?p r3 = polarity_scores demo_library r3)"
      unfolding x using other
      by (auto simp add: demo_strip_good demo_remove_good demo_expand)
  qed
  have differs: "textblob_polarity demo_library (lit ''bad'') \<noteq> Inl failure"
    by (simp add: demo_fields)
  from inst[THEN conjunct1] cols demo_test_reviews demo_test_sentiments demo_notebook printed
    differs inst[THEN conjunct2, THEN conjunct2, THEN mp, OF agree]
  show ?thesis by simp
qed

subsection \<open>Exceptions are not caught\<close>



end
